theory Spec2Isabelle
  imports Main "HOL-Library.Sublist" "HOL-Library.AList"
begin

section \<open>String primitives of the host language\<close>

text \<open>
  Strings are \<open>string\<close>: a string is the list of its code units, each below 256
  (a \<open>char\<close> is the Latin-1 character of that code). The functions below are the
  \<open>String.prototype\<close> methods and the end-anchored literal regular expressions
  the two source files use.
\<close>

text \<open>\<open>s.startsWith(p)\<close>.\<close>

definition startsWith :: "string \<Rightarrow> string \<Rightarrow> bool" where
  "startsWith s p = (take (length p) s = p)"

text \<open>\<open>s\<close> matches the regular expression \<open>/p$/\<close> for a literal \<open>p\<close>
  (no \<open>m\<close> flag: \<open>$\<close> is the end of the input).\<close>

definition endsWith :: "string \<Rightarrow> string \<Rightarrow> bool" where
  "endsWith s p = (length p \<le> length s \<and> drop (length s - length p) s = p)"

text \<open>\<open>s.includes(p)\<close>: \<open>p\<close> occurs in \<open>s\<close> as a contiguous substring.\<close>

fun strIncludes :: "string \<Rightarrow> string \<Rightarrow> bool" where
  "strIncludes [] p = (p = [])"
| "strIncludes (c # cs) p = (startsWith (c # cs) p \<or> strIncludes cs p)"

text \<open>\<open>s.replace(regEx(/old$/), new)\<close> for a literal \<open>old\<close>: the regular expression
  is anchored at the end of the input and is not global, so at most one occurrence,
  the final one, is replaced.\<close>

definition replaceSuffix :: "string \<Rightarrow> string \<Rightarrow> string \<Rightarrow> string" where
  "replaceSuffix s old new =
     (if endsWith s old then take (length s - length old) s @ new else s)"

text \<open>\<open>s.replace(regEx(/^v/i), '')\<close>: one leading \<open>v\<close> or \<open>V\<close> is removed.\<close>

definition stripLeadingV :: "string \<Rightarrow> string" where
  "stripLeadingV s =
     (case s of
        [] \<Rightarrow> []
      | c # cs \<Rightarrow> if c = CHR ''v'' \<or> c = CHR ''V'' then cs else s)"

text \<open>White space and line terminators as \<open>String.prototype.trim\<close> removes them,
  among the code units below 256: space, tab, line feed, vertical tab, form feed,
  carriage return and the no-break space U+00A0. (The others, such as U+FEFF and
  U+2028, are code units a \<open>string\<close> of this model cannot hold.)\<close>

definition isWhiteSpace :: "char \<Rightarrow> bool" where
  "isWhiteSpace c = (c = CHR '' '' \<or> c = CHR 0x09 \<or> c = CHR 0x0A \<or> c = CHR 0x0B
                     \<or> c = CHR 0x0C \<or> c = CHR 0x0D \<or> c = CHR 0xA0)"

definition trim :: "string \<Rightarrow> string" where
  "trim s = rev (dropWhile isWhiteSpace (rev (dropWhile isWhiteSpace s)))"

text \<open>\<open>xs.join(' ')\<close>.\<close>

fun joinSpace :: "string list \<Rightarrow> string" where
  "joinSpace [] = []"
| "joinSpace [x] = x"
| "joinSpace (x # y # ys) = x @ '' '' @ joinSpace (y # ys)"

text \<open>Truthiness of a value of type \<open>string | null | undefined\<close>: defined and not
  the empty string.\<close>

definition truthy :: "string option \<Rightarrow> bool" where
  "truthy v = (case v of None \<Rightarrow> False | Some s \<Rightarrow> s \<noteq> [])"

section \<open>Extraction: \<open>lib/modules/manager/composer/extract.ts\<close>\<close>

subsection \<open>Data model\<close>

text \<open>
  The value of a property the code does not know by name. The code only ever tests
  such a value for truthiness and reads its \<open>.type\<close> and \<open>.url\<close>, so a value is
  given by that: falsy, or truthy with the strings its \<open>.type\<close> and \<open>.url\<close> are
  (\<open>None\<close>: \<open>undefined\<close>).
\<close>

datatype propertyValue = Falsy | Truthy "string option" "string option"

text \<open>
  A repository declaration of the manifest (\<open>ComposerRepository\<close>). Every field is
  optional in the parsed JSON; \<open>None\<close> is \<open>undefined\<close>. The two \<open>packagist\<close> flags
  are only ever compared with \<open>false\<close>. \<open>repoExtra\<close> holds the other own properties
  of the parsed object, those with a key other than \<open>type\<close>, \<open>url\<close>, \<open>name\<close>,
  \<open>packagist\<close> and \<open>packagist.org\<close>; \<open>JSON.parse\<close> makes every key of the text an
  own property, also the key \<open>__proto__\<close>.
\<close>

record composerRepository =
  repoType :: "string option"
  repoUrl :: "string option"
  repoName :: "string option"
  repoPackagist :: "bool option"
  repoPackagistOrg :: "bool option"
  repoExtra :: "(string \<times> propertyValue) list"

text \<open>
  A value of the \<open>repositories\<close> field: an object (for which \<open>is.object\<close> holds), the
  boolean \<open>false\<close>, or any other value.
\<close>

datatype repoEntry = RepoObject composerRepository | RepoFalse | RepoOther

text \<open>
  \<open>ComposerRepositories\<close> is an array of declarations or an object from keys to
  declarations; the object is given by its \<open>Object.entries\<close>, in that order.
\<close>

datatype composerRepositories =
    RepositoriesArray "repoEntry list"
  | RepositoriesObject "(string \<times> repoEntry) list"

text \<open>
  The key of an entry of \<open>Object.entries(repoJson)\<close>: the index of an array element
  (a decimal numeral as a string, so never \<open>packagist\<close> or \<open>packagist.org\<close>), or the
  key of an object.
\<close>

datatype entryKey = Index nat | Key string

record lockedPackage =
  lockName :: string
  lockVersion :: string

text \<open>\<open>ComposerLock\<close>: the fields \<open>packages\<close> and \<open>packages-dev\<close>, each optional.\<close>

record composerLock =
  packages :: "lockedPackage list option"
  packagesDev :: "lockedPackage list option"

text \<open>
  \<open>ComposerConfig\<close>, the parsed manifest. \<open>require\<close> and \<open>require-dev\<close> are given by
  their \<open>Object.entries\<close>, in that order; the values have the declared type \<open>string\<close>.
\<close>

record composerConfig =
  cfgType :: "string option"
  cfgRequire :: "(string \<times> string) list option"
  cfgRequireDev :: "(string \<times> string) list option"
  cfgRepositories :: "composerRepositories option"

datatype depType = Require | RequireDev

datatype skipReason = PathDependency | Unsupported

text \<open>\<open>PackageDependency\<close>, with the fields the two source files read or write.\<close>

record packageDependency =
  depType :: "depType option"
  depName :: "string option"
  currentValue :: "string option"
  datasource :: "string option"
  packageName :: "string option"
  extractVersion :: "string option"
  skipReason :: "skipReason option"
  lockedVersion :: "string option"
  registryUrls :: "string list option"

text \<open>\<open>PackageFileContent\<close>; \<open>managerData\<close> holds \<open>composerJsonType\<close> and
  \<open>extractedConstraints\<close> holds \<open>php\<close>.\<close>

record packageFileContent =
  deps :: "packageDependency list"
  lockFiles :: "string list option"
  managerData :: "string option"
  extractedConstraints :: "string option"

text \<open>
  What \<open>extract.ts\<close> imports from outside the two source files: the identifiers of
  three datasources, the composer versioning's \<open>isVersion\<close>, \<open>readLocalFile\<close>
  (content or absent), and \<open>JSON.parse\<close> at the two types it is cast to
  (\<open>None\<close>: \<open>JSON.parse\<close> throws; for the lock also a falsy parse result).
\<close>

record datasourceIds =
  PackagistDatasource_id :: string
  GitTagsDatasource_id :: string
  GithubTagsDatasource_id :: string

record extractEnv = datasourceIds +
  isVersion :: "string \<Rightarrow> bool"
  readLocalFile :: "string \<Rightarrow> string option"
  JSON_parse_ComposerConfig :: "string \<Rightarrow> composerConfig option"
  JSON_parse_ComposerLock :: "string \<Rightarrow> composerLock option"

subsection \<open>\<open>transformRegUrl\<close> (lines 25-27)\<close>

definition transformRegUrl :: "string \<Rightarrow> string" where
  "transformRegUrl url = replaceSuffix url ''/packages.json'' ''''"

subsection \<open>\<open>parseRepositories\<close> (lines 35-80)\<close>

text \<open>
  The two accumulators the caller passes in and the local flag \<open>packagist\<close>. The
  accumulator \<open>repositories\<close> is a plain object created by \<open>{}\<close>: it has own
  properties (the map \<open>repositories\<close>) and a prototype, which is \<open>Object.prototype\<close>
  (\<open>prototypeRepo = None\<close>) until an assignment to the key \<open>__proto__\<close> makes a
  declaration the prototype.
\<close>

record repoAcc =
  repositories :: "string \<rightharpoonup> composerRepository"
  prototypeRepo :: "composerRepository option"
  registryUrlsAcc :: "string list"
  packagist :: bool

text \<open>The own property of a declaration under a key, if it has one.\<close>

definition stringValue :: "string \<Rightarrow> propertyValue" where
  "stringValue s = (if s = [] then Falsy else Truthy None None)"

definition boolValue :: "bool \<Rightarrow> propertyValue" where
  "boolValue b = (if b then Truthy None None else Falsy)"

definition ownProperty :: "composerRepository \<Rightarrow> string \<Rightarrow> propertyValue option" where
  "ownProperty repo k =
     (if k = ''type'' then map_option stringValue (repoType repo)
      else if k = ''url'' then map_option stringValue (repoUrl repo)
      else if k = ''name'' then map_option stringValue (repoName repo)
      else if k = ''packagist'' then map_option boolValue (repoPackagist repo)
      else if k = ''packagist.org'' then map_option boolValue (repoPackagistOrg repo)
      else map_of (repoExtra repo) k)"

text \<open>
  The properties of \<open>Object.prototype\<close> other than the accessor \<open>__proto__\<close>: all are
  functions, and writable data properties.
\<close>

definition objectPrototypeFunctions :: "string list" where
  "objectPrototypeFunctions =
     [''constructor'', ''__defineGetter__'', ''__defineSetter__'', ''hasOwnProperty'',
      ''__lookupGetter__'', ''__lookupSetter__'', ''isPrototypeOf'', ''propertyIsEnumerable'',
      ''toString'', ''valueOf'', ''toLocaleString'']"

text \<open>
  \<open>repositories[name] = repo\<close>. An own property of that name is overwritten.
  Otherwise the prototype chain decides: a data property found there (all are
  writable) lets the assignment add an own property; only the key \<open>__proto__\<close>, when
  neither the object nor a declaration that is its prototype has it as an own
  property, reaches the accessor of \<open>Object.prototype\<close>, whose setter makes \<open>repo\<close> the
  prototype and adds no own property.
\<close>

definition assignRepository :: "string \<Rightarrow> composerRepository \<Rightarrow> repoAcc \<Rightarrow> repoAcc" where
  "assignRepository name repo acc =
     (if name = ''__proto__'' \<and> repositories acc name = None
         \<and> (case prototypeRepo acc of None \<Rightarrow> True | Some p \<Rightarrow> ownProperty p name = None)
      then acc\<lparr>prototypeRepo := Some repo\<rparr>
      else acc\<lparr>repositories := (repositories acc)(name \<mapsto> repo)\<rparr>)"

text \<open>
  What the code reads of a value that \<open>repositories[depName]\<close> yields and that is not a
  stored declaration: its \<open>.type\<close> and \<open>.url\<close>, given as a declaration with just those.
\<close>

definition readAs :: "string option \<Rightarrow> string option \<Rightarrow> composerRepository" where
  "readAs t u = \<lparr>repoType = t, repoUrl = u, repoName = None, repoPackagist = None,
                 repoPackagistOrg = None, repoExtra = []\<rparr>"

text \<open>
  \<open>repositories[depName]\<close>: \<open>None\<close> when the value is falsy (\<open>undefined\<close> included), else
  the value. An own property wins; then an own property of the declaration that is
  the prototype; then \<open>Object.prototype\<close>, where \<open>__proto__\<close> is the getter that returns
  the object's prototype and the other names are functions.
\<close>

definition lookupRepository ::
  "(string \<rightharpoonup> composerRepository) \<Rightarrow> composerRepository option \<Rightarrow> string
     \<Rightarrow> composerRepository option" where
  "lookupRepository own proto k =
     (case own k of
        Some repo \<Rightarrow> Some repo
      | None \<Rightarrow>
          (case (case proto of None \<Rightarrow> None | Some p \<Rightarrow> ownProperty p k) of
             Some v \<Rightarrow> (case v of Falsy \<Rightarrow> None | Truthy t u \<Rightarrow> Some (readAs t u))
           | None \<Rightarrow>
               if k = ''__proto__''
               then Some (case proto of None \<Rightarrow> readAs None None | Some p \<Rightarrow> p)
               else if k \<in> set objectPrototypeFunctions then Some (readAs None None)
               else None))"

definition entriesOf :: "composerRepositories \<Rightarrow> (entryKey \<times> repoEntry) list" where
  "entriesOf repoJson =
     (case repoJson of
        RepositoriesArray rs \<Rightarrow> map (\<lambda>(i, r). (Index i, r)) (enumerate 0 rs)
      | RepositoriesObject kvs \<Rightarrow> map (\<lambda>(k, r). (Key k, r)) kvs)"

text \<open>
  The body of the \<open>forEach\<close> callback. \<open>None\<close> is the \<open>TypeError\<close> of
  \<open>transformRegUrl(repo.url)\<close> on a declaration with no \<open>url\<close>; it is thrown before
  the callback has changed anything. \<open>name!\<close> of an absent name is the property key
  \<open>undefined\<close>.
\<close>

definition repoCallback :: "entryKey \<times> repoEntry \<Rightarrow> repoAcc \<Rightarrow> repoAcc option" where
  "repoCallback e acc =
     (case e of (key, entry) \<Rightarrow>
       (case entry of
          RepoObject repo \<Rightarrow>
            (let name = (case key of Index i \<Rightarrow> repoName repo | Key k \<Rightarrow> Some k);
                 acc1 =
                   (if repoType repo = Some ''vcs'' \<or> repoType repo = Some ''git''
                       \<or> repoType repo = Some ''path''
                    then Some (assignRepository
                                 (case name of None \<Rightarrow> ''undefined'' | Some n \<Rightarrow> n) repo acc)
                    else if repoType repo = Some ''composer''
                    then (case repoUrl repo of
                            None \<Rightarrow> None
                          | Some url \<Rightarrow>
                              Some (acc\<lparr>registryUrlsAcc := registryUrlsAcc acc @ [transformRegUrl url]\<rparr>))
                    else Some acc)
             in (case acc1 of
                   None \<Rightarrow> None
                 | Some a \<Rightarrow>
                     if repoPackagist repo = Some False \<or> repoPackagistOrg repo = Some False
                     then Some (a\<lparr>packagist := False\<rparr>)
                     else Some a))
        | RepoFalse \<Rightarrow>
            (if key = Key ''packagist'' \<or> key = Key ''packagist.org''
             then Some (acc\<lparr>packagist := False\<rparr>)
             else Some acc)
        | RepoOther \<Rightarrow> Some acc))"

text \<open>
  \<open>forEach\<close> over the entries. The second component says whether the loop ran to its
  end; when the callback throws, the accumulators stay as the earlier iterations left
  them.
\<close>

fun forEachRepo :: "(entryKey \<times> repoEntry) list \<Rightarrow> repoAcc \<Rightarrow> repoAcc \<times> bool" where
  "forEachRepo [] acc = (acc, True)"
| "forEachRepo (e # es) acc =
     (case repoCallback e acc of
        None \<Rightarrow> (acc, False)
      | Some acc' \<Rightarrow> forEachRepo es acc')"

text \<open>
  \<open>parseRepositories\<close>, called with the empty accumulators of \<open>extractPackageFile\<close>:
  the resulting \<open>repositories\<close>, given by what \<open>repositories[depName]\<close> yields for each
  name, and \<open>registryUrls\<close>. The \<open>catch\<close> only logs.
\<close>

definition parseRepositories ::
  "composerRepositories \<Rightarrow> (string \<rightharpoonup> composerRepository) \<times> string list" where
  "parseRepositories repoJson =
     (case forEachRepo (entriesOf repoJson)
             \<lparr>repositories = Map.empty, prototypeRepo = None, registryUrlsAcc = [],
              packagist = True\<rparr> of
        (acc, finished) \<Rightarrow>
          (lookupRepository (repositories acc) (prototypeRepo acc),
           if finished \<and> packagist acc
           then registryUrlsAcc acc @ [''https://packagist.org'']
           else registryUrlsAcc acc))"

subsection \<open>\<open>extractPackageFile\<close> (lines 82-215)\<close>

text \<open>The named repositories and registry URLs of a manifest (lines 94-95, 113-115);
  with no \<open>repositories\<close> field the object stays \<open>{}\<close>.\<close>

definition manifestRepositories ::
  "composerConfig \<Rightarrow> (string \<rightharpoonup> composerRepository) \<times> string list" where
  "manifestRepositories composerJson =
     (case cfgRepositories composerJson of
        None \<Rightarrow> (lookupRepository Map.empty None, [])
      | Some repoJson \<Rightarrow> parseRepositories repoJson)"

text \<open>\<open>lockParsed[lockField]?.find((item) => item.name === dep.depName)\<close>.\<close>

definition findLocked :: "composerLock \<Rightarrow> depType \<Rightarrow> string \<Rightarrow> lockedPackage option" where
  "findLocked lockParsed t n =
     (case (if t = Require then packages lockParsed else packagesDev lockParsed) of
        None \<Rightarrow> None
      | Some items \<Rightarrow> find (\<lambda>item. lockName item = n) items)"

text \<open>
  The body of the inner \<open>for\<close> loop (lines 125-191): every path through it pushes
  exactly one record onto \<open>deps\<close>, which is the value here.
\<close>

definition extractDep ::
  "extractEnv \<Rightarrow> (string \<rightharpoonup> composerRepository) \<Rightarrow> string list \<Rightarrow> composerLock option
     \<Rightarrow> depType \<Rightarrow> string \<times> string \<Rightarrow> packageDependency" where
  "extractDep X repos regUrls lockParsed t e =
     (case e of (name, version) \<Rightarrow>
       (let cur = trim version;
            blank = \<lparr>depType = Some t, depName = Some name, currentValue = Some cur,
                     datasource = None, packageName = None, extractVersion = None,
                     skipReason = None, lockedVersion = None, registryUrls = None\<rparr>
        in if name = ''php''
           then blank\<lparr>datasource := Some (GithubTagsDatasource_id X),
                      packageName := Some ''php/php-src'',
                      extractVersion := Some ''^php-(?<version>.*)$''\<rparr>
           else if (case repos name of None \<Rightarrow> False | Some r \<Rightarrow> repoType r = Some ''path'')
           then blank\<lparr>skipReason := Some PathDependency\<rparr>
           else
             (let vcs = (case repos name of
                           None \<Rightarrow> False
                         | Some r \<Rightarrow> repoType r = Some ''vcs'' \<or> repoType r = Some ''git'');
                  ds = (if vcs then GitTagsDatasource_id X else PackagistDatasource_id X);
                  pkg = (if vcs then (case repos name of None \<Rightarrow> None | Some r \<Rightarrow> repoUrl r)
                         else Some name);
                  dep0 = blank\<lparr>datasource := Some ds\<rparr>;
                  dep1 = (if Some name \<noteq> pkg then dep0\<lparr>packageName := pkg\<rparr> else dep0);
                  dep2 = (if \<not> strIncludes name ''/''
                          then dep1\<lparr>skipReason := Some Unsupported\<rparr> else dep1);
                  dep3 = (case lockParsed of
                            None \<Rightarrow> dep2
                          | Some l \<Rightarrow>
                              (case findLocked l t name of
                                 None \<Rightarrow> dep2
                               | Some lockedDep \<Rightarrow>
                                   if isVersion X (lockVersion lockedDep)
                                   then dep2\<lparr>lockedVersion :=
                                               Some (stripLeadingV (lockVersion lockedDep))\<rparr>
                                   else dep2))
              in if skipReason dep3 = None
                    \<and> (case repos name of None \<Rightarrow> True | Some r \<Rightarrow> repoType r = Some ''composer'')
                    \<and> regUrls \<noteq> []
                 then dep3\<lparr>registryUrls := Some regUrls\<rparr>
                 else dep3)))"

text \<open>\<open>composerJson[depType]\<close>.\<close>

definition declared :: "composerConfig \<Rightarrow> depType \<Rightarrow> (string \<times> string) list option" where
  "declared composerJson t =
     (if t = Require then cfgRequire composerJson else cfgRequireDev composerJson)"

text \<open>The name/constraint pairs a manifest declares in one group (none when the group
  is absent).\<close>

definition declaredEntries :: "composerConfig \<Rightarrow> depType \<Rightarrow> (string \<times> string) list" where
  "declaredEntries composerJson t = (case declared composerJson t of None \<Rightarrow> [] | Some es \<Rightarrow> es)"

text \<open>The outer loop over \<open>depTypes\<close> (lines 117-198): the final value of \<open>deps\<close>.
  With entries of the declared types nothing in the loop throws, so the \<open>catch\<close> of
  lines 193-196 is not reached.\<close>

definition extractDeps ::
  "extractEnv \<Rightarrow> composerConfig \<Rightarrow> composerLock option \<Rightarrow> packageDependency list" where
  "extractDeps X composerJson lockParsed =
     (case manifestRepositories composerJson of (repos, regUrls) \<Rightarrow>
        concat (map (\<lambda>t. case declared composerJson t of
                            None \<Rightarrow> []
                          | Some entries \<Rightarrow> map (extractDep X repos regUrls lockParsed t) entries)
                    [Require, RequireDev]))"

text \<open>
  \<open>extractPackageFile(content, fileName)\<close>. \<open>None\<close> is the result \<open>null\<close>. The lock is
  read and parsed when the sibling lock file has content.
\<close>

definition lockOf :: "extractEnv \<Rightarrow> string \<Rightarrow> composerLock option" where
  "lockOf X fileName =
     (let lockContents = readLocalFile X (replaceSuffix fileName ''.json'' ''.lock'')
      in if truthy lockContents
         then (case lockContents of None \<Rightarrow> None | Some c \<Rightarrow> JSON_parse_ComposerLock X c)
         else None)"

definition extractPackageFile ::
  "extractEnv \<Rightarrow> string \<Rightarrow> string \<Rightarrow> packageFileContent option" where
  "extractPackageFile X content fileName =
     (case JSON_parse_ComposerConfig X content of
        None \<Rightarrow> None
      | Some composerJson \<Rightarrow>
          (let lockfilePath = replaceSuffix fileName ''.json'' ''.lock'';
               ds = extractDeps X composerJson (lockOf X fileName)
           in if ds = [] then None
              else Some \<lparr>deps = ds,
                         lockFiles = (if truthy (readLocalFile X lockfilePath)
                                      then Some [lockfilePath] else None),
                         managerData = cfgType composerJson,
                         extractedConstraints =
                           (case cfgRequire composerJson of
                              None \<Rightarrow> None
                            | Some entries \<Rightarrow>
                                (if truthy (map_of entries ''php'')
                                 then map_of entries ''php'' else None))\<rparr>))"

section \<open>Synthesis: the artifacts module (\<open>src/unnamed/part_000\<close>)\<close>

subsection \<open>Data model\<close>

text \<open>A thrown value: an \<open>Error\<close> whose \<open>message\<close> may be undefined.\<close>

datatype err = Error (message: "string option")

text \<open>A credential rule of the host rule store, and a search for rules.\<close>

record hostRule =
  resolvedHost :: "string option"
  username :: "string option"
  password :: "string option"
  token :: "string option"

record hostRuleSearch =
  searchHostType :: string
  searchUrl :: "string option"

text \<open>
  \<open>AuthJson\<close>: every branch is absent until first written. An object keyed by host
  is the list of its own properties in insertion order. (Keys that are array
  indices, which a JavaScript object lists first, are not told apart.)
\<close>

record authJson =
  githubOauth :: "(string \<times> string) list option"
  gitlabToken :: "(string \<times> string) list option"
  gitlabDomains :: "string list option"
  httpBasic :: "(string \<times> string \<times> string) list option"
  bearer :: "(string \<times> string) list option"

text \<open>
  What \<open>getAuthJson\<close> uses from outside the source files: two datasource
  identifiers, \<open>findGithubToken\<close> and \<open>takePersonalAccessTokenIfPossible\<close> of
  \<open>./utils\<close>, \<open>hostRules.findAll\<close> (no rules: the empty list) and \<open>JSON.stringify\<close>.
\<close>

record authEnv = datasourceIds +
  findGithubToken :: "hostRuleSearch \<Rightarrow> string option"
  takePersonalAccessTokenIfPossible :: "string option \<Rightarrow> string option \<Rightarrow> string option"
  hostRules_findAll :: "hostRuleSearch \<Rightarrow> hostRule list"
  JSON_stringify :: "authJson \<Rightarrow> string"

text \<open>\<open>UpdateArtifactsConfig\<close>: the two fields \<open>updateArtifacts\<close> itself reads.\<close>

record updateArtifactsConfig =
  isLockFileMaintenance :: bool
  constraints :: "string \<rightharpoonup> string"

record toolConstraint =
  toolName :: string
  constraint :: "string option"

text \<open>\<open>ExecOptions\<close>, with \<open>extraEnv\<close> flattened into its two variables.\<close>

record execOptions =
  cwdFile :: string
  COMPOSER_CACHE_DIR :: string
  COMPOSER_AUTH :: "string option"
  toolConstraints :: "toolConstraint list"

text \<open>\<open>StatusResult\<close> of \<open>getRepoStatus\<close>.\<close>

record statusResult =
  modified :: "string list"
  not_added :: "string list"
  deleted :: "string list"

text \<open>
  \<open>UpdateArtifactsResult\<close>: \<open>{file: {type: 'addition', path, contents}}\<close>,
  \<open>{file: {type: 'deletion', path}}\<close> or \<open>{artifactError: {lockFile, stderr}}\<close>.
\<close>

datatype updateArtifactsResult =
    Addition string "string option"
  | Deletion string
  | ArtifactError string "string option"

text \<open>The calls \<open>updateArtifacts\<close> makes to its collaborators, in the order made.\<close>

datatype effect =
    ReadLocalFile string
  | LocalPathExists string
  | EnsureLocalDir string
  | WriteLocalFile string string
  | EnsureCacheDir string
  | Exec "string list" execOptions
  | GetRepoStatus

text \<open>
  What \<open>updateArtifacts\<close> uses from outside the source files. First the pure helpers and
  constants (\<open>./utils\<close>, \<open>util/fs\<close>, \<open>shlex\<close>, \<open>constants/error-messages\<close>, and
  \<open>JSON.parse\<close> followed by the schema's \<open>safeParse\<close>: \<open>Inl\<close> when \<open>JSON.parse\<close>
  throws, \<open>Inr None\<close> when \<open>safeParse\<close> does not succeed). Then what the collaborators
  answer in this run: file reads before and after the commands run (content or
  absent), whether a path exists, and for each call that can fail the error it raises,
  if any. \<open>'l\<close> and \<open>'c\<close> are the schema's types of a lock and of a manifest.
\<close>

record ('l, 'c) artifactsEnv =
  getSiblingFileName :: "string \<Rightarrow> string \<Rightarrow> string"
  extractConstraints :: "'c \<Rightarrow> 'l \<Rightarrow> (string \<rightharpoonup> string)"
  getPhpConstraint :: "(string \<rightharpoonup> string) \<Rightarrow> string option"
  requireComposerDependencyInstallation :: "'l \<Rightarrow> bool"
  getComposerArguments :: "updateArtifactsConfig \<Rightarrow> toolConstraint \<Rightarrow> string"
  quote :: "string \<Rightarrow> string"
  TEMPORARY_ERROR :: string
  SYSTEM_INSUFFICIENT_DISK_SPACE :: string
  ComposerLock_safeParse :: "string \<Rightarrow> err + 'l option"
  ComposerConfig_safeParse :: "string \<Rightarrow> err + 'c option"
  readLocalFileBefore :: "string \<Rightarrow> string option"
  localPathExists :: "string \<Rightarrow> bool"
  ensureLocalDir :: "string \<Rightarrow> err option"
  writeLocalFile :: "string \<Rightarrow> string \<Rightarrow> err option"
  ensureCacheDir :: "string \<Rightarrow> err + string"
  exec :: "string list \<Rightarrow> execOptions \<Rightarrow> err option"
  getRepoStatus :: "err + statusResult"
  readLocalFileAfter :: "string \<Rightarrow> string option"

subsection \<open>\<open>getAuthJson\<close> (lines 35-85)\<close>

definition emptyAuthJson :: authJson where
  "emptyAuthJson = \<lparr>githubOauth = None, gitlabToken = None, gitlabDomains = None,
                     httpBasic = None, bearer = None\<rparr>"

text \<open>
  \<open>obj[k] = v\<close> on an object created by \<open>{}\<close> or by an object literal without the
  key \<open>__proto__\<close>. The key \<open>__proto__\<close> reaches the accessor of \<open>Object.prototype\<close>:
  its setter ignores a string and makes an object the prototype, and adds no own
  property either way (\<open>JSON.stringify\<close> and \<open>is.emptyObject\<close> see own properties
  only). Any other key is set as an own property.
\<close>

definition setProperty :: "string \<Rightarrow> 'v \<Rightarrow> (string \<times> 'v) list \<Rightarrow> (string \<times> 'v) list" where
  "setProperty k v obj = (if k = ''__proto__'' then obj else AList.update k v obj)"

text \<open>\<open>x ?? d\<close>.\<close>

definition orElse :: "'a option \<Rightarrow> 'a \<Rightarrow> 'a" where
  "orElse x d = (case x of None \<Rightarrow> d | Some v \<Rightarrow> v)"

text \<open>Lines 38-56: the selected GitHub token, stored when truthy.\<close>

definition selectedGithubToken :: "authEnv \<Rightarrow> string option" where
  "selectedGithubToken A =
     takePersonalAccessTokenIfPossible A
       (findGithubToken A \<lparr>searchHostType = ''github'',
                            searchUrl = Some ''https://api.github.com/''\<rparr>)
       (findGithubToken A \<lparr>searchHostType = GitTagsDatasource_id A,
                            searchUrl = Some ''https://github.com''\<rparr>)"

definition githubStep :: "authEnv \<Rightarrow> authJson \<Rightarrow> authJson" where
  "githubStep A a =
     (case selectedGithubToken A of
        None \<Rightarrow> a
      | Some t \<Rightarrow> if t = [] then a else a\<lparr>githubOauth := Some [(''github.com'', t)]\<rparr>)"

text \<open>\<open>hostRules.findAll({ hostType: 'gitlab' })\<close> and
  \<open>hostRules.findAll({ hostType: PackagistDatasource.id })\<close>.\<close>

definition gitlabRules :: "authEnv \<Rightarrow> hostRule list" where
  "gitlabRules A = hostRules_findAll A \<lparr>searchHostType = ''gitlab'', searchUrl = None\<rparr>"

definition registryRules :: "authEnv \<Rightarrow> hostRule list" where
  "registryRules A =
     hostRules_findAll A \<lparr>searchHostType = PackagistDatasource_id A, searchUrl = None\<rparr>"

text \<open>Lines 58-69: the callback for one GitLab rule.\<close>

definition gitlabStep :: "hostRule \<Rightarrow> authJson \<Rightarrow> authJson" where
  "gitlabStep gitlabHostRule a =
     (case token gitlabHostRule of
        None \<Rightarrow> a
      | Some t \<Rightarrow>
          if t = [] then a
          else (let host = orElse (resolvedHost gitlabHostRule) ''gitlab.com''
                in a\<lparr>gitlabToken := Some (setProperty host t (orElse (gitlabToken a) [])),
                     gitlabDomains := Some (host # orElse (gitlabDomains a) [])\<rparr>))"

text \<open>The tests of lines 75 and 78: \<open>resolvedHost && username && password\<close>, and, when
  that fails, \<open>resolvedHost && token\<close>.\<close>

definition basicRule :: "hostRule \<Rightarrow> bool" where
  "basicRule r = (truthy (resolvedHost r) \<and> truthy (username r) \<and> truthy (password r))"

definition bearerRule :: "hostRule \<Rightarrow> bool" where
  "bearerRule r = (\<not> basicRule r \<and> truthy (resolvedHost r) \<and> truthy (token r))"

text \<open>Lines 71-82: the callback for one rule of the package registry.\<close>

definition packagistStep :: "hostRule \<Rightarrow> authJson \<Rightarrow> authJson" where
  "packagistStep hostRule a =
     (if basicRule hostRule
      then a\<lparr>httpBasic := Some (setProperty (orElse (resolvedHost hostRule) [])
                                 (orElse (username hostRule) [], orElse (password hostRule) [])
                                 (orElse (httpBasic a) []))\<rparr>
      else if bearerRule hostRule
      then a\<lparr>bearer := Some (setProperty (orElse (resolvedHost hostRule) [])
                              (orElse (token hostRule) []) (orElse (bearer a) []))\<rparr>
      else a)"

text \<open>The value of the local \<open>authJson\<close> when line 84 is reached.\<close>

definition collectedAuthJson :: "authEnv \<Rightarrow> authJson" where
  "collectedAuthJson A =
     fold packagistStep (registryRules A)
       (fold gitlabStep (gitlabRules A) (githubStep A emptyAuthJson))"

text \<open>\<open>is.emptyObject\<close>: no branch has been written.\<close>

definition isEmptyObject :: "authJson \<Rightarrow> bool" where
  "isEmptyObject a = (githubOauth a = None \<and> gitlabToken a = None \<and> gitlabDomains a = None
                       \<and> httpBasic a = None \<and> bearer a = None)"

definition getAuthJson :: "authEnv \<Rightarrow> string option" where
  "getAuthJson A =
     (if isEmptyObject (collectedAuthJson A) then None
      else Some (JSON_stringify A (collectedAuthJson A)))"

subsection \<open>Effects and exceptions\<close>

text \<open>
  A computation yields the calls it made and then either the thrown error or its
  value. \<open>io_call\<close> makes one call and takes the collaborator's answer; \<open>io_catch\<close> is
  \<open>try\<close>/\<open>catch\<close>.
\<close>

type_synonym 'a io = "effect list \<times> (err + 'a)"

definition io_return :: "'a \<Rightarrow> 'a io" where
  "io_return x = ([], Inr x)"

definition io_throw :: "err \<Rightarrow> 'a io" where
  "io_throw e = ([], Inl e)"

definition io_lift :: "err + 'a \<Rightarrow> 'a io" where
  "io_lift r = ([], r)"

definition io_call :: "effect \<Rightarrow> err + 'a \<Rightarrow> 'a io" where
  "io_call eff answer = ([eff], answer)"

definition io_bind :: "'a io \<Rightarrow> ('a \<Rightarrow> 'b io) \<Rightarrow> 'b io" where
  "io_bind m f =
     (case m of
        (t, Inl e) \<Rightarrow> (t, Inl e)
      | (t, Inr x) \<Rightarrow> (case f x of (t', r) \<Rightarrow> (t @ t', r)))"

definition io_catch :: "'a io \<Rightarrow> (err \<Rightarrow> 'a io) \<Rightarrow> 'a io" where
  "io_catch m h =
     (case m of
        (t, Inl e) \<Rightarrow> (case h e of (t', r) \<Rightarrow> (t @ t', r))
      | (t, Inr x) \<Rightarrow> (t, Inr x))"

definition raised :: "err option \<Rightarrow> err + unit" where
  "raised r = (case r of None \<Rightarrow> Inr () | Some e \<Rightarrow> Inl e)"

subsection \<open>\<open>updateArtifacts\<close> (lines 87-256)\<close>

text \<open>Lines 157-187: the final value of \<open>commands\<close>.\<close>

definition updateArgs :: "('l, 'c) artifactsEnv \<Rightarrow> bool \<Rightarrow> packageDependency list \<Rightarrow> string" where
  "updateArgs E maintenance updatedDeps =
     (if maintenance then ''update''
      else trim (''update '' @ joinSpace (map (quote E) (List.map_filter depName updatedDeps)))
             @ '' --with-dependencies'')"

definition plannedCommands ::
  "('l, 'c) artifactsEnv \<Rightarrow> updateArtifactsConfig \<Rightarrow> toolConstraint \<Rightarrow> 'l
     \<Rightarrow> packageDependency list \<Rightarrow> string list" where
  "plannedCommands E config composerToolConstraint lockData updatedDeps =
     (if requireComposerDependencyInstallation E lockData
      then [''git stash -- composer.json'',
            ''composer '' @ (''install'' @ getComposerArguments E config composerToolConstraint),
            ''git stash pop || true'']
      else [])
     @ [''composer '' @ (updateArgs E (isLockFileMaintenance config) updatedDeps
                          @ getComposerArguments E config composerToolConstraint)]"

text \<open>Lines 210-220: the loop over the modified and the newly added paths.\<close>

fun vendorAdditions ::
  "('l, 'c) artifactsEnv \<Rightarrow> string \<Rightarrow> string list \<Rightarrow> updateArtifactsResult list io" where
  "vendorAdditions E vendorDir [] = io_return []"
| "vendorAdditions E vendorDir (f # fs) =
     (if startsWith f vendorDir
      then io_bind (io_call (ReadLocalFile f) (Inr (readLocalFileAfter E f))) (\<lambda>contents.
           io_bind (vendorAdditions E vendorDir fs) (\<lambda>rest.
           io_return (Addition f contents # rest)))
      else vendorAdditions E vendorDir fs)"

text \<open>Lines 190-230: from the status query to the result.\<close>

definition reconcile ::
  "('l, 'c) artifactsEnv \<Rightarrow> string \<Rightarrow> string \<Rightarrow> bool \<Rightarrow> updateArtifactsResult list option io" where
  "reconcile E lockFileName vendorDir commitVendorFiles =
     io_bind (io_call GetRepoStatus (getRepoStatus E)) (\<lambda>status.
       if lockFileName \<notin> set (modified status) then io_return None
       else
         io_bind (io_call (ReadLocalFile lockFileName)
                    (Inr (readLocalFileAfter E lockFileName))) (\<lambda>contents.
           if \<not> commitVendorFiles then io_return (Some [Addition lockFileName contents])
           else
             io_bind (vendorAdditions E vendorDir (modified status @ not_added status))
               (\<lambda>additions.
                 io_return (Some ([Addition lockFileName contents] @ additions
                                   @ map Deletion (deleted status))))))"

text \<open>Lines 105-230: the \<open>try\<close> block.\<close>

definition tryBlock ::
  "authEnv \<Rightarrow> ('l, 'c) artifactsEnv \<Rightarrow> string \<Rightarrow> packageDependency list \<Rightarrow> string
     \<Rightarrow> updateArtifactsConfig \<Rightarrow> string \<Rightarrow> string \<Rightarrow> string \<Rightarrow> bool
     \<Rightarrow> updateArtifactsResult list option io" where
  "tryBlock A E packageFileName updatedDeps newPackageFileContent config
            lockFileName existingLockFileContent vendorDir commitVendorFiles =
     io_bind (io_call (WriteLocalFile packageFileName newPackageFileContent)
                (raised (writeLocalFile E packageFileName newPackageFileContent))) (\<lambda>_.
     io_bind (io_lift (ComposerLock_safeParse E existingLockFileContent)) (\<lambda>composerLockResult.
       case composerLockResult of
         None \<Rightarrow> io_return None
       | Some lockData \<Rightarrow>
     io_bind (io_lift (ComposerConfig_safeParse E newPackageFileContent)) (\<lambda>newPackageFileResult.
       case newPackageFileResult of
         None \<Rightarrow> io_return None
       | Some manifestData \<Rightarrow>
          (let cs = extractConstraints E manifestData lockData ++ constraints config;
               composerToolConstraint = \<lparr>toolName = ''composer'', constraint = cs ''composer''\<rparr>;
               phpToolConstraint = \<lparr>toolName = ''php'', constraint = getPhpConstraint E cs\<rparr>
           in
     io_bind (io_call (EnsureCacheDir ''composer'') (ensureCacheDir E ''composer'')) (\<lambda>cacheDir.
          (let execOpts = \<lparr>cwdFile = packageFileName, COMPOSER_CACHE_DIR = cacheDir,
                           COMPOSER_AUTH = getAuthJson A,
                           toolConstraints = [phpToolConstraint, composerToolConstraint]\<rparr>;
               commands = plannedCommands E config composerToolConstraint lockData updatedDeps
           in
     io_bind (io_call (Exec commands execOpts) (raised (exec E commands execOpts))) (\<lambda>_.
     reconcile E lockFileName vendorDir commitVendorFiles)))))))"

text \<open>\<open>err.message?.includes(s)\<close>.\<close>

definition messageIncludes :: "err \<Rightarrow> string \<Rightarrow> bool" where
  "messageIncludes e s = (case message e of None \<Rightarrow> False | Some m \<Rightarrow> strIncludes m s)"

text \<open>Lines 231-255: the \<open>catch\<close> block.\<close>

definition catchBlock ::
  "('l, 'c) artifactsEnv \<Rightarrow> string \<Rightarrow> err \<Rightarrow> updateArtifactsResult list option io" where
  "catchBlock E lockFileName e =
     (if message e = Some (TEMPORARY_ERROR E) then io_throw e
      else if messageIncludes e
                ''Your requirements could not be resolved to an installable set of packages.''
      then io_return (Some [ArtifactError lockFileName (message e)])
      else if messageIncludes e ''write error (disk full?)''
      then io_throw (Error (Some (SYSTEM_INSUFFICIENT_DISK_SPACE E)))
      else io_return (Some [ArtifactError lockFileName (message e)]))"

text \<open>
  \<open>updateArtifacts\<close>: the calls made, and the promise's outcome (\<open>Inl\<close>: rejected with
  the error; \<open>Inr None\<close>: \<open>null\<close>).
\<close>

definition updateArtifacts ::
  "authEnv \<Rightarrow> ('l, 'c) artifactsEnv \<Rightarrow> string \<Rightarrow> packageDependency list \<Rightarrow> string
     \<Rightarrow> updateArtifactsConfig \<Rightarrow> updateArtifactsResult list option io" where
  "updateArtifacts A E packageFileName updatedDeps newPackageFileContent config =
     (let lockFileName = replaceSuffix packageFileName ''.json'' ''.lock'' in
      io_bind (io_call (ReadLocalFile lockFileName)
                 (Inr (readLocalFileBefore E lockFileName))) (\<lambda>existingLockFileContent.
        case existingLockFileContent of
          None \<Rightarrow> io_return None
        | Some lockText \<Rightarrow>
            if lockText = [] then io_return None
            else
              (let vendorDir = getSiblingFileName E packageFileName ''vendor'' in
               io_bind (io_call (LocalPathExists vendorDir)
                          (Inr (localPathExists E vendorDir))) (\<lambda>commitVendorFiles.
               io_bind (io_call (EnsureLocalDir vendorDir)
                          (raised (ensureLocalDir E vendorDir))) (\<lambda>_.
               io_catch
                 (tryBlock A E packageFileName updatedDeps newPackageFileContent config
                    lockFileName lockText vendorDir commitVendorFiles)
                 (catchBlock E lockFileName))))))"

section \<open>Example inputs\<close>

text \<open>
  Concrete manifests, locks and collaborators, used where a statement is evaluated
  at an input. \<open>exampleIsVersion\<close> stands for the versioning's \<open>isVersion\<close>: it accepts
  dotted numbers with an optional leading \<open>v\<close>. \<open>exampleExtractEnv manifest lock\<close>
  parses the manifest text to \<open>manifest\<close> and finds the lock file \<open>composer.lock\<close>
  exactly when \<open>lock\<close> is given.
\<close>

definition exampleIsVersion :: "string \<Rightarrow> bool" where
  "exampleIsVersion v =
     (stripLeadingV v \<noteq> [] \<and> list_all (\<lambda>c. c \<in> set ''0123456789.'') (stripLeadingV v))"

definition exampleExtractEnv :: "composerConfig \<Rightarrow> composerLock option \<Rightarrow> extractEnv" where
  "exampleExtractEnv manifest lock =
     \<lparr>PackagistDatasource_id = ''packagist'', GitTagsDatasource_id = ''git-tags'',
      GithubTagsDatasource_id = ''github-tags'',
      isVersion = exampleIsVersion,
      readLocalFile = (\<lambda>p. if p = ''composer.lock'' \<and> lock \<noteq> None
                            then Some ''<composer.lock>'' else None),
      JSON_parse_ComposerConfig = (\<lambda>c. Some manifest),
      JSON_parse_ComposerLock = (\<lambda>c. lock)\<rparr>"

definition pathRepo :: "string \<Rightarrow> string \<Rightarrow> repoEntry" where
  "pathRepo n u = RepoObject \<lparr>repoType = Some ''path'', repoUrl = Some u, repoName = Some n,
                               repoPackagist = None, repoPackagistOrg = None,
                               repoExtra = []\<rparr>"

definition composerRepo :: "string \<Rightarrow> repoEntry" where
  "composerRepo u = RepoObject \<lparr>repoType = Some ''composer'', repoUrl = Some u, repoName = None,
                                 repoPackagist = None, repoPackagistOrg = None,
                                 repoExtra = []\<rparr>"

text \<open>\<open>{"require": {"php": "^8.0"}}\<close>\<close>

definition phpOnlyManifest :: composerConfig where
  "phpOnlyManifest = \<lparr>cfgType = None, cfgRequire = Some [(''php'', ''^8.0'')],
                       cfgRequireDev = None, cfgRepositories = None\<rparr>"

text \<open>\<open>{"require": {"ext-json": "*"}, "require-dev": {"phpunit": "^9.5"}}\<close>\<close>

definition unscopedManifest :: composerConfig where
  "unscopedManifest = \<lparr>cfgType = None, cfgRequire = Some [(''ext-json'', ''*'')],
                        cfgRequireDev = Some [(''phpunit'', ''^9.5'')], cfgRepositories = None\<rparr>"

text \<open>\<open>{"repositories": [{"type": "path", "name": "php", "url": "../php"}],
  "require": {"php": "^8.0"}}\<close>\<close>

definition pathPhpManifest :: composerConfig where
  "pathPhpManifest = \<lparr>cfgType = None, cfgRequire = Some [(''php'', ''^8.0'')],
                       cfgRequireDev = None,
                       cfgRepositories = Some (RepositoriesArray [pathRepo ''php'' ''../php''])\<rparr>"

text \<open>\<open>{"repositories": [{"type": "path", "name": "acme/local", "url": "../local"}],
  "require": {"acme/local": "^1.0"}}\<close>, with a lock whose \<open>packages\<close> hold
  \<open>{"name": "acme/local", "version": "1.0.0"}\<close>.\<close>

definition pathLocalManifest :: composerConfig where
  "pathLocalManifest = \<lparr>cfgType = None, cfgRequire = Some [(''acme/local'', ''^1.0'')],
                         cfgRequireDev = None,
                         cfgRepositories =
                           Some (RepositoriesArray [pathRepo ''acme/local'' ''../local''])\<rparr>"

definition pathLocalLock :: composerLock where
  "pathLocalLock = \<lparr>packages = Some [\<lparr>lockName = ''acme/local'', lockVersion = ''1.0.0''\<rparr>],
                     packagesDev = Some []\<rparr>"

text \<open>\<open>{"repositories": {"__proto__": {"type": "path", "url": "../local",
  "foo/bar": {"type": "path"}}}, "require": {"foo/bar": "^1.2"}}\<close>: the declaration
  keyed \<open>__proto__\<close> becomes the prototype of the object \<open>repositories\<close>, and the lookup
  of \<open>foo/bar\<close> finds the property the object inherits from it.\<close>

definition inheritedRepoManifest :: composerConfig where
  "inheritedRepoManifest =
     \<lparr>cfgType = None, cfgRequire = Some [(''foo/bar'', ''^1.2'')], cfgRequireDev = None,
      cfgRepositories =
        Some (RepositoriesObject
                [(''__proto__'',
                  RepoObject \<lparr>repoType = Some ''path'', repoUrl = Some ''../local'',
                              repoName = None, repoPackagist = None, repoPackagistOrg = None,
                              repoExtra = [(''foo/bar'', Truthy (Some ''path'') None)]\<rparr>)])\<rparr>"

text \<open>\<open>{"require": {"foo/bar": "^1.2"}}\<close>, with a lock whose \<open>packages\<close> hold
  \<open>{"name": "foo/bar", "version": "v1.2.3"}\<close>.\<close>

definition fooBarManifest :: composerConfig where
  "fooBarManifest = \<lparr>cfgType = None, cfgRequire = Some [(''foo/bar'', ''^1.2'')],
                      cfgRequireDev = None, cfgRepositories = None\<rparr>"

definition fooBarLock :: composerLock where
  "fooBarLock = \<lparr>packages = Some [\<lparr>lockName = ''foo/bar'', lockVersion = ''v1.2.3''\<rparr>],
                  packagesDev = Some []\<rparr>"

text \<open>
  Collaborators of \<open>getAuthJson\<close> for examples: the GitHub token found for host type
  \<open>github\<close>, and the rules stored for GitLab and for the package registry.
  \<open>takePersonalAccessTokenIfPossible\<close> is stood for by "the first token if there is
  one, else the second", and \<open>JSON.stringify\<close> by a function that tells the empty
  object from the others.
\<close>

definition exampleAuthEnv :: "string option \<Rightarrow> hostRule list \<Rightarrow> hostRule list \<Rightarrow> authEnv" where
  "exampleAuthEnv github gitlab registry =
     \<lparr>PackagistDatasource_id = ''packagist'', GitTagsDatasource_id = ''git-tags'',
      GithubTagsDatasource_id = ''github-tags'',
      findGithubToken = (\<lambda>s. if searchHostType s = ''github'' then github else None),
      takePersonalAccessTokenIfPossible = (\<lambda>a b. case a of None \<Rightarrow> b | Some t \<Rightarrow> Some t),
      hostRules_findAll = (\<lambda>s. if searchHostType s = ''gitlab'' then gitlab
                                else if searchHostType s = ''packagist'' then registry
                                else []),
      JSON_stringify = (\<lambda>a. if isEmptyObject a then ''{}'' else ''{...}'')\<rparr>"

definition gitlabTokenRule :: hostRule where
  "gitlabTokenRule = \<lparr>resolvedHost = None, username = None, password = None,
                       token = Some ''glpat-abc''\<rparr>"

text \<open>A GitLab rule whose resolved host is \<open>__proto__\<close>.\<close>

definition protoHostRule :: hostRule where
  "protoHostRule = \<lparr>resolvedHost = Some ''__proto__'', username = None, password = None,
                     token = Some ''glpat-abc''\<rparr>"

text \<open>A rule with a user name and a password but no resolved host: nothing is collected
  from it.\<close>

definition hostlessRule :: hostRule where
  "hostlessRule = \<lparr>resolvedHost = None, username = Some ''user'', password = Some ''secret'',
                    token = None\<rparr>"

text \<open>
  Collaborators of \<open>updateArtifacts\<close> for examples, over a manifest in the repository
  root: \<open>lockBefore\<close> is what reading \<open>composer.lock\<close> gives before the commands run,
  \<open>vendorExists\<close> whether \<open>vendor\<close> exists, \<open>execError\<close> the error \<open>exec\<close> raises, if
  any, and \<open>status\<close> the working-tree status afterwards. \<open>getSiblingFileName\<close> replaces
  the last segment of the path; \<open>quote\<close> is stood for by the identity (the names of the
  examples need no quoting); no install step is required; both parses succeed.
\<close>

definition exampleArtifactsEnv ::
  "string option \<Rightarrow> bool \<Rightarrow> err option \<Rightarrow> statusResult \<Rightarrow> (unit, unit) artifactsEnv" where
  "exampleArtifactsEnv lockBefore vendorExists execError status =
     \<lparr>getSiblingFileName =
        (\<lambda>p n. rev (dropWhile (\<lambda>c. c \<noteq> CHR ''/'') (rev p)) @ n),
      extractConstraints = (\<lambda>c l. Map.empty),
      getPhpConstraint = (\<lambda>cs. cs ''php''),
      requireComposerDependencyInstallation = (\<lambda>l. False),
      getComposerArguments = (\<lambda>c t. '' --no-ansi --no-interaction''),
      quote = (\<lambda>s. s),
      TEMPORARY_ERROR = ''temporary-error'',
      SYSTEM_INSUFFICIENT_DISK_SPACE = ''disk-space'',
      ComposerLock_safeParse = (\<lambda>s. Inr (Some ())),
      ComposerConfig_safeParse = (\<lambda>s. Inr (Some ())),
      readLocalFileBefore = (\<lambda>p. if p = ''composer.lock'' then lockBefore else None),
      localPathExists = (\<lambda>p. p = ''vendor'' \<and> vendorExists),
      ensureLocalDir = (\<lambda>p. None),
      writeLocalFile = (\<lambda>p c. None),
      ensureCacheDir = (\<lambda>n. Inr ''/tmp/renovate/cache/composer''),
      exec = (\<lambda>cmds opts. execError),
      getRepoStatus = Inr status,
      readLocalFileAfter = (\<lambda>p. Some (''new:'' @ p))\<rparr>"

definition exampleConfig :: "bool \<Rightarrow> updateArtifactsConfig" where
  "exampleConfig maintenance = \<lparr>isLockFileMaintenance = maintenance, constraints = Map.empty\<rparr>"

text \<open>An updated dependency with the given name.\<close>

definition updatedDep :: "string \<Rightarrow> packageDependency" where
  "updatedDep n = \<lparr>depType = None, depName = Some n, currentValue = None, datasource = None,
                    packageName = None, extractVersion = None, skipReason = None,
                    lockedVersion = None, registryUrls = None\<rparr>"

text \<open>The options \<open>exec\<close> is called with in the examples.\<close>

definition exampleExecOptions :: execOptions where
  "exampleExecOptions =
     \<lparr>cwdFile = ''composer.json'', COMPOSER_CACHE_DIR = ''/tmp/renovate/cache/composer'',
      COMPOSER_AUTH = None,
      toolConstraints = [\<lparr>toolName = ''php'', constraint = None\<rparr>,
                         \<lparr>toolName = ''composer'', constraint = None\<rparr>]\<rparr>"

text \<open>A status in which only the lock file changed, one in which nothing changed, and
  one with a new file and a deleted file under \<open>vendor\<close> and a deleted file outside
  it.\<close>

definition lockModifiedStatus :: statusResult where
  "lockModifiedStatus = \<lparr>modified = [''composer.lock''], not_added = [], deleted = []\<rparr>"

definition unchangedStatus :: statusResult where
  "unchangedStatus = \<lparr>modified = [''composer.json''], not_added = [], deleted = []\<rparr>"

definition vendorStatus :: statusResult where
  "vendorStatus = \<lparr>modified = [''composer.lock'', ''composer.json''],
                    not_added = [''vendor/acme/widget/New.php''],
                    deleted = [''vendor/acme/widget/Old.php'', ''docs/guide.md'']\<rparr>"

text \<open>Failure messages of the external tool.\<close>

definition unresolvableMessage :: string where
  "unresolvableMessage =
     ''Your requirements could not be resolved to an installable set of packages.''"

definition diskFullMessage :: string where
  "diskFullMessage = ''fwrite(): write error (disk full?)''"

definition bothMessage :: string where
  "bothMessage = ''Your requirements could not be resolved to an installable set of packages. write error (disk full?)''"

section \<open>Properties of the string primitives\<close>

lemma endsWith_iff: "endsWith s p \<longleftrightarrow> (\<exists>q. s = q @ p)"
  unfolding endsWith_def
  by (metis append_eq_conv_conj append_take_drop_id diff_add_inverse2 le_add2 length_append)

lemma endsWith_suffix: "endsWith s p \<longleftrightarrow> suffix p s"
  by (simp add: endsWith_iff suffix_def)

lemma startsWith_prefix: "startsWith s p \<longleftrightarrow> prefix p s"
  unfolding startsWith_def prefix_def
  by (metis append_eq_conv_conj append_take_drop_id)

lemma strIncludes_sublist: "strIncludes s p \<longleftrightarrow> sublist p s"
  by (induction s) (auto simp: startsWith_prefix sublist_Cons_right)

section \<open>Properties of extraction\<close>

lemmas example_extract_defs =
  extractPackageFile_def exampleExtractEnv_def extractDeps_def manifestRepositories_def
  declared_def extractDep_def lockOf_def truthy_def replaceSuffix_def endsWith_def trim_def
  isWhiteSpace_def Let_def parseRepositories_def entriesOf_def enumerate_eq_zip
  repoCallback_def pathRepo_def composerRepo_def findLocked_def exampleIsVersion_def
  stripLeadingV_def startsWith_def transformRegUrl_def assignRepository_def
  lookupRepository_def ownProperty_def objectPrototypeFunctions_def readAs_def
  stringValue_def boolValue_def

subsection \<open>Registry URLs\<close>

lemma transformRegUrl_strip: "transformRegUrl (q @ ''/packages.json'') = q"
  by (simp add: transformRegUrl_def replaceSuffix_def endsWith_iff)

lemma transformRegUrl_keep: "\<not> endsWith url ''/packages.json'' \<Longrightarrow> transformRegUrl url = url"
  by (simp add: transformRegUrl_def replaceSuffix_def)

lemma transformRegUrl_endsWith:
  "endsWith (transformRegUrl url) ''/packages.json''
     \<longleftrightarrow> endsWith url ''/packages.json/packages.json''"
proof (cases "endsWith url ''/packages.json''")
  case True
  then obtain q where q: "url = q @ ''/packages.json''"
    by (auto simp: endsWith_iff)
  have "endsWith (q @ ''/packages.json'') ''/packages.json/packages.json''
          \<longleftrightarrow> endsWith q ''/packages.json''"
    by (auto simp: endsWith_iff)
  then show ?thesis
    using q by (simp add: transformRegUrl_strip)
next
  case False
  then have "\<not> endsWith url ''/packages.json/packages.json''"
    by (auto simp: endsWith_iff)
  with False show ?thesis
    by (simp add: transformRegUrl_keep)
qed

lemma repoCallback_composer:
  "repoType repo = Some ''composer'' \<Longrightarrow> repoUrl repo = Some url \<Longrightarrow>
   map_option registryUrlsAcc (repoCallback (key, RepoObject repo) acc)
     = Some (registryUrlsAcc acc @ [transformRegUrl url])"
  by (simp add: repoCallback_def Let_def)

text \<open>
  Claim C5, as the code has it. For a repository declaration of type \<open>composer\<close> with
  the URL \<open>url\<close>, the callback appends to the registry URL list exactly
  \<open>transformRegUrl url\<close>, which is \<open>url\<close> with one trailing \<open>/packages.json\<close> removed when
  there is one. The appended URL therefore ends in \<open>/packages.json\<close> exactly when the
  declared URL ended in \<open>/packages.json/packages.json\<close>, and never otherwise.
\<close>

theorem composer_registry_url_stripped_once:
  assumes "repoType repo = Some ''composer''" and "repoUrl repo = Some url"
  shows "map_option registryUrlsAcc (repoCallback (key, RepoObject repo) acc)
           = Some (registryUrlsAcc acc @ [transformRegUrl url])
         \<and> transformRegUrl url
           = (if endsWith url ''/packages.json'' then take (length url - length ''/packages.json'') url else url)
         \<and> (endsWith (transformRegUrl url) ''/packages.json''
              \<longleftrightarrow> endsWith url ''/packages.json/packages.json'')"
  using assms
  by (simp add: repoCallback_composer transformRegUrl_endsWith)
     (simp add: transformRegUrl_def replaceSuffix_def)

theorem composer_registry_url_stripped_once_witness:
  "map_option registryUrlsAcc
     (repoCallback (Index 0, composerRepo ''https://gitlab.example.com/api/v4/group/7/-/packages/composer/packages.json'')
        \<lparr>repositories = Map.empty, prototypeRepo = None, registryUrlsAcc = [],
          packagist = True\<rparr>)
     = Some [''https://gitlab.example.com/api/v4/group/7/-/packages/composer'']
   \<and> \<not> endsWith (transformRegUrl ''https://gitlab.example.com/api/v4/group/7/-/packages/composer/packages.json'')
          ''/packages.json''"
proof -
  let ?u = "''https://gitlab.example.com/api/v4/group/7/-/packages/composer/packages.json''"
  let ?r = "\<lparr>repoType = Some ''composer'', repoUrl = Some ?u, repoName = None,
             repoPackagist = None, repoPackagistOrg = None, repoExtra = []\<rparr>"
  have h1: "repoType ?r = Some ''composer''" and h2: "repoUrl ?r = Some ?u"
    by simp_all
  from composer_registry_url_stripped_once [OF h1 h2, of "Index 0"
      "\<lparr>repositories = Map.empty, prototypeRepo = None, registryUrlsAcc = [],
          packagist = True\<rparr>"]
  show ?thesis
    by (simp add: composerRepo_def transformRegUrl_def replaceSuffix_def endsWith_def)
qed

text \<open>
  Claim C5 as stated fails: a declared URL that ends in \<open>/packages.json/packages.json\<close>
  yields a registry URL that still ends in \<open>/packages.json\<close>.
\<close>

theorem composer_registry_url_counterexample:
  "snd (parseRepositories
          (RepositoriesArray [composerRepo ''https://example.com/packages.json/packages.json'']))
     = [''https://example.com/packages.json'', ''https://packagist.org'']
   \<and> endsWith ''https://example.com/packages.json'' ''/packages.json''"
  by (simp add: example_extract_defs)

text \<open>Every registry URL of a manifest is the default registry's or the transformed
  URL of a declaration of type \<open>composer\<close>.\<close>

lemma repoCallback_urls:
  assumes "repoCallback (k, e) acc = Some acc'"
  shows "registryUrlsAcc acc' = registryUrlsAcc acc
         \<or> (\<exists>r u. e = RepoObject r \<and> repoType r = Some ''composer'' \<and> repoUrl r = Some u
               \<and> registryUrlsAcc acc' = registryUrlsAcc acc @ [transformRegUrl u])"
  using assms
  by (cases e) (auto simp: repoCallback_def assignRepository_def Let_def
        split: if_splits option.splits)

lemma forEachRepo_urls:
  assumes "x \<in> set (registryUrlsAcc (fst (forEachRepo es acc)))"
  shows "x \<in> set (registryUrlsAcc acc)
         \<or> (\<exists>k r u. (k, RepoObject r) \<in> set es \<and> repoType r = Some ''composer''
               \<and> repoUrl r = Some u \<and> x = transformRegUrl u)"
  using assms
proof (induction es arbitrary: acc)
  case Nil
  then show ?case by simp
next
  case (Cons e es)
  obtain k v where e: "e = (k, v)"
    by (cases e)
  show ?case
  proof (cases "repoCallback e acc")
    case None
    with Cons.prems show ?thesis by simp
  next
    case (Some acc')
    with Cons.prems have "x \<in> set (registryUrlsAcc (fst (forEachRepo es acc')))"
      by simp
    from Cons.IH [OF this] consider
        (here) "x \<in> set (registryUrlsAcc acc')"
      | (later) "\<exists>k r u. (k, RepoObject r) \<in> set es \<and> repoType r = Some ''composer''
                   \<and> repoUrl r = Some u \<and> x = transformRegUrl u"
      by blast
    then show ?thesis
    proof cases
      case here
      from repoCallback_urls [OF Some [unfolded e]] show ?thesis
      proof
        assume "registryUrlsAcc acc' = registryUrlsAcc acc"
        with here show ?thesis by simp
      next
        assume "\<exists>r u. v = RepoObject r \<and> repoType r = Some ''composer'' \<and> repoUrl r = Some u
                  \<and> registryUrlsAcc acc' = registryUrlsAcc acc @ [transformRegUrl u]"
        then obtain r u where "v = RepoObject r" "repoType r = Some ''composer''"
          "repoUrl r = Some u" "registryUrlsAcc acc' = registryUrlsAcc acc @ [transformRegUrl u]"
          by blast
        with here e show ?thesis
          by (cases "x = transformRegUrl u") (simp_all, blast)
      qed
    next
      case later
      then show ?thesis
        by auto
    qed
  qed
qed

lemma parseRepositories_urls:
  assumes "x \<in> set (snd (parseRepositories repoJson))"
  shows "x = ''https://packagist.org''
         \<or> (\<exists>k r u. (k, RepoObject r) \<in> set (entriesOf repoJson)
               \<and> repoType r = Some ''composer'' \<and> repoUrl r = Some u \<and> x = transformRegUrl u)"
proof -
  let ?acc = "\<lparr>repositories = Map.empty, prototypeRepo = None, registryUrlsAcc = [],
          packagist = True\<rparr>"
  from assms have "x = ''https://packagist.org''
      \<or> x \<in> set (registryUrlsAcc (fst (forEachRepo (entriesOf repoJson) ?acc)))"
    by (auto simp: parseRepositories_def split: prod.splits if_splits)
  then show ?thesis
    using forEachRepo_urls [of x "entriesOf repoJson" ?acc] by auto
qed

subsection \<open>The loop over the declared dependencies\<close>

lemma extractDep_depType: "depType (extractDep X repos regUrls lockParsed t e) = Some t"
  by (cases e) (simp add: extractDep_def Let_def split: option.splits)

lemma extractDep_depName: "depName (extractDep X repos regUrls lockParsed t (n, v)) = Some n"
  by (simp add: extractDep_def Let_def split: option.splits)

lemma extractDep_path:
  "n \<noteq> ''php'' \<Longrightarrow> repos n = Some r \<Longrightarrow> repoType r = Some ''path'' \<Longrightarrow>
   extractDep X repos regUrls lockParsed t (n, v) =
     \<lparr>depType = Some t, depName = Some n, currentValue = Some (trim v),
      datasource = None, packageName = None, extractVersion = None,
      skipReason = Some PathDependency, lockedVersion = None, registryUrls = None\<rparr>"
  by (simp add: extractDep_def Let_def)

lemma extractDep_php:
  "skipReason (extractDep X repos regUrls lockParsed t (''php'', v)) = None
   \<and> datasource (extractDep X repos regUrls lockParsed t (''php'', v))
       = Some (GithubTagsDatasource_id X)
   \<and> packageName (extractDep X repos regUrls lockParsed t (''php'', v)) = Some ''php/php-src''"
  by (simp add: extractDep_def Let_def)

lemma extractDep_unscoped:
  "\<not> strIncludes n ''/'' \<Longrightarrow>
   n = ''php'' \<or>
   (n \<noteq> ''php'' \<and> (\<exists>r. repos n = Some r \<and> repoType r = Some ''path''
        \<and> skipReason (extractDep X repos regUrls lockParsed t (n, v)) = Some PathDependency)) \<or>
   (n \<noteq> ''php''
      \<and> skipReason (extractDep X repos regUrls lockParsed t (n, v)) = Some Unsupported)"
  by (auto simp add: extractDep_def Let_def split: option.splits)

lemma extractDep_locked:
  "n \<noteq> ''php'' \<Longrightarrow> \<not> (\<exists>r. repos n = Some r \<and> repoType r = Some ''path'') \<Longrightarrow>
   findLocked l t n = Some ld \<Longrightarrow> isVersion X (lockVersion ld) \<Longrightarrow>
   lockedVersion (extractDep X repos regUrls (Some l) t (n, v))
     = Some (stripLeadingV (lockVersion ld))"
  by (auto simp add: extractDep_def Let_def split: option.splits)

lemma extractDeps_eq:
  "extractDeps X cj lp =
     map (extractDep X (fst (manifestRepositories cj)) (snd (manifestRepositories cj)) lp Require)
         (declaredEntries cj Require)
     @ map (extractDep X (fst (manifestRepositories cj)) (snd (manifestRepositories cj)) lp
              RequireDev)
         (declaredEntries cj RequireDev)"
  by (simp add: extractDeps_def declaredEntries_def split: prod.splits option.splits)

lemma length_extractDeps:
  "length (extractDeps X cj lp)
     = length (declaredEntries cj Require) + length (declaredEntries cj RequireDev)"
  by (simp add: extractDeps_eq)

lemma in_extractDeps:
  "d \<in> set (extractDeps X cj lp) \<longleftrightarrow>
   (\<exists>t e. e \<in> set (declaredEntries cj t) \<and>
      d = extractDep X (fst (manifestRepositories cj)) (snd (manifestRepositories cj)) lp t e)"
  apply (simp add: extractDeps_eq)
  apply (rule iffI)
   apply (elim disjE; force)
  apply (elim exE conjE)
  subgoal for t e by (cases t) auto
  done

lemma extractPackageFile_deps:
  "JSON_parse_ComposerConfig X content = Some cj \<Longrightarrow>
   map_option deps (extractPackageFile X content fileName) =
     (if extractDeps X cj (lockOf X fileName) = [] then None
      else Some (extractDeps X cj (lockOf X fileName)))"
  by (simp add: extractPackageFile_def Let_def)

lemma extractPackageFile_Some_deps:
  "JSON_parse_ComposerConfig X content = Some cj \<Longrightarrow>
   extractPackageFile X content fileName = Some res \<Longrightarrow>
   deps res = extractDeps X cj (lockOf X fileName)"
  using extractPackageFile_deps [of X content cj fileName]
  by (simp split: if_splits)

lemma extractPackageFile_nonempty:
  "JSON_parse_ComposerConfig X content = Some cj \<Longrightarrow> e \<in> set (declaredEntries cj t) \<Longrightarrow>
   \<exists>res. extractPackageFile X content fileName = Some res"
proof -
  assume p: "JSON_parse_ComposerConfig X content = Some cj" and e: "e \<in> set (declaredEntries cj t)"
  have "extractDeps X cj (lockOf X fileName) \<noteq> []"
    using e in_extractDeps [of _ X cj "lockOf X fileName"] by fastforce
  then show ?thesis
    using p by (simp add: extractPackageFile_def Let_def)
qed

subsection \<open>Names without a namespace separator\<close>

text \<open>
  Claim C6, as the code has it. When every declared dependency name lacks \<open>/\<close>,
  extraction emits one dependency per declared name/constraint pair (and returns
  \<open>null\<close> when there is none), and every emitted dependency is of one of three kinds:
  the reserved name \<open>php\<close>, with the source-tag datasource, the package identifier
  \<open>php/php-src\<close> and no skip reason; or another name for which the lookup in the
  named repositories yields a declaration of type \<open>path\<close>, with skip reason
  \<open>path-dependency\<close>; or another name, with skip reason \<open>unsupported\<close>.
\<close>

theorem unscoped_names_kept_and_marked:
  assumes "JSON_parse_ComposerConfig X content = Some composerJson"
      and "\<forall>t. \<forall>(n, v) \<in> set (declaredEntries composerJson t). \<not> strIncludes n ''/''"
  shows "map_option (length \<circ> deps) (extractPackageFile X content fileName)
           = (if declaredEntries composerJson Require = []
                 \<and> declaredEntries composerJson RequireDev = []
              then None
              else Some (length (declaredEntries composerJson Require)
                          + length (declaredEntries composerJson RequireDev)))
         \<and> (\<forall>res. extractPackageFile X content fileName = Some res \<longrightarrow>
               (\<forall>d \<in> set (deps res).
                  (depName d = Some ''php'' \<and> skipReason d = None
                     \<and> datasource d = Some (GithubTagsDatasource_id X)
                     \<and> packageName d = Some ''php/php-src'')
                  \<or> (\<exists>n r. depName d = Some n \<and> n \<noteq> ''php''
                        \<and> fst (manifestRepositories composerJson) n = Some r
                        \<and> repoType r = Some ''path''
                        \<and> skipReason d = Some PathDependency)
                  \<or> (depName d \<noteq> Some ''php'' \<and> skipReason d = Some Unsupported)))"
proof (intro conjI allI impI ballI)
  have "map_option (length \<circ> deps) (extractPackageFile X content fileName)
          = map_option length (map_option deps (extractPackageFile X content fileName))"
    by (simp add: option.map_comp)
  also have "\<dots> = (if extractDeps X composerJson (lockOf X fileName) = [] then None
                    else Some (length (extractDeps X composerJson (lockOf X fileName))))"
    by (simp add: extractPackageFile_deps [OF assms(1)])
  finally show "map_option (length \<circ> deps) (extractPackageFile X content fileName)
           = (if declaredEntries composerJson Require = []
                 \<and> declaredEntries composerJson RequireDev = []
              then None
              else Some (length (declaredEntries composerJson Require)
                          + length (declaredEntries composerJson RequireDev)))"
    by (simp add: length_extractDeps extractDeps_eq)
next
  fix res d
  assume res: "extractPackageFile X content fileName = Some res" and d: "d \<in> set (deps res)"
  let ?repos = "fst (manifestRepositories composerJson)"
  let ?urls = "snd (manifestRepositories composerJson)"
  let ?lp = "lockOf X fileName"
  from d obtain t n v where e: "(n, v) \<in> set (declaredEntries composerJson t)"
    and dv: "d = extractDep X ?repos ?urls ?lp t (n, v)"
    unfolding extractPackageFile_Some_deps [OF assms(1) res] in_extractDeps
    by (metis surj_pair)
  from assms(2) e have "\<not> strIncludes n ''/''"
    by blast
  from extractDep_unscoped [OF this, of ?repos X ?urls ?lp t v]
  consider (php) "n = ''php''"
    | (path) r where "n \<noteq> ''php''" "?repos n = Some r" "repoType r = Some ''path''"
        "skipReason d = Some PathDependency"
    | (unsupported) "n \<noteq> ''php''" "skipReason d = Some Unsupported"
    unfolding dv by blast
  then show "(depName d = Some ''php'' \<and> skipReason d = None
                \<and> datasource d = Some (GithubTagsDatasource_id X)
                \<and> packageName d = Some ''php/php-src'')
        \<or> (\<exists>n r. depName d = Some n \<and> n \<noteq> ''php'' \<and> ?repos n = Some r
              \<and> repoType r = Some ''path'' \<and> skipReason d = Some PathDependency)
        \<or> (depName d \<noteq> Some ''php'' \<and> skipReason d = Some Unsupported)"
  proof cases
    case php
    then show ?thesis
      unfolding dv using extractDep_php [of X ?repos ?urls ?lp t v]
      by (simp add: extractDep_depName)
  next
    case path
    then have "depName d = Some n"
      by (simp add: dv extractDep_depName)
    with path show ?thesis
      by blast
  next
    case unsupported
    then show ?thesis
      by (simp add: dv extractDep_depName)
  qed
qed

theorem unscoped_names_kept_and_marked_witness:
  "map_option (length \<circ> deps)
     (extractPackageFile (exampleExtractEnv unscopedManifest None) ''<composer.json>''
        ''composer.json'') = Some 2
   \<and> map_option (map skipReason \<circ> deps)
     (extractPackageFile (exampleExtractEnv unscopedManifest None) ''<composer.json>''
        ''composer.json'') = Some [Some Unsupported, Some Unsupported]"
proof -
  have p: "JSON_parse_ComposerConfig (exampleExtractEnv unscopedManifest None) ''<composer.json>''
             = Some unscopedManifest"
    by (simp add: exampleExtractEnv_def)
  have u: "\<forall>t. \<forall>(n, v) \<in> set (declaredEntries unscopedManifest t). \<not> strIncludes n ''/''"
  proof
    fix t show "\<forall>(n, v) \<in> set (declaredEntries unscopedManifest t). \<not> strIncludes n ''/''"
      by (cases t)
         (simp_all add: declaredEntries_def declared_def unscopedManifest_def orElse_def
            startsWith_def)
  qed
  from unscoped_names_kept_and_marked [OF p u, of "''composer.json''"]
  show ?thesis
    by (simp add: example_extract_defs unscopedManifest_def declaredEntries_def orElse_def)
qed

text \<open>
  Claim C6 as stated fails: the only declared name, \<open>php\<close>, lacks \<open>/\<close>, and the
  dependency emitted for it carries no skip reason.
\<close>

theorem unscoped_names_counterexample:
  "\<not> strIncludes ''php'' ''/''
   \<and> extractPackageFile (exampleExtractEnv phpOnlyManifest None) ''<composer.json>''
       ''composer.json''
     = Some \<lparr>deps = [\<lparr>depType = Some Require, depName = Some ''php'',
                       currentValue = Some ''^8.0'', datasource = Some ''github-tags'',
                       packageName = Some ''php/php-src'',
                       extractVersion = Some ''^php-(?<version>.*)$'', skipReason = None,
                       lockedVersion = None, registryUrls = None\<rparr>],
              lockFiles = None, managerData = None, extractedConstraints = Some ''^8.0''\<rparr>"
  by (simp add: example_extract_defs phpOnlyManifest_def)

subsection \<open>Dependencies bound to a \<open>path\<close> repository\<close>

text \<open>
  Claim C7, as the code has it. For a declared dependency whose name is not the
  reserved name \<open>php\<close> and matches a named repository of type \<open>path\<close>, extraction
  returns a result whose dependencies include the record for it with skip reason
  \<open>path-dependency\<close> and nothing but its group, name and constraint; and every
  emitted dependency of that name carries \<open>path-dependency\<close> and has no datasource,
  no package identifier and no registry URLs.
\<close>

theorem path_repository_dependency_skipped:
  assumes "JSON_parse_ComposerConfig X content = Some composerJson"
      and "(n, v) \<in> set (declaredEntries composerJson t)"
      and "n \<noteq> ''php''"
      and "fst (manifestRepositories composerJson) n = Some r"
      and "repoType r = Some ''path''"
  shows "\<exists>res. extractPackageFile X content fileName = Some res
           \<and> \<lparr>depType = Some t, depName = Some n, currentValue = Some (trim v),
               datasource = None, packageName = None, extractVersion = None,
               skipReason = Some PathDependency, lockedVersion = None,
               registryUrls = None\<rparr> \<in> set (deps res)
           \<and> (\<forall>d \<in> set (deps res). depName d = Some n \<longrightarrow>
                 skipReason d = Some PathDependency \<and> datasource d = None
                 \<and> packageName d = None \<and> registryUrls d = None)"
proof -
  let ?repos = "fst (manifestRepositories composerJson)"
  let ?urls = "snd (manifestRepositories composerJson)"
  let ?lp = "lockOf X fileName"
  from extractPackageFile_nonempty [OF assms(1,2)]
  obtain res where res: "extractPackageFile X content fileName = Some res"
    by blast
  have ds: "deps res = extractDeps X composerJson ?lp"
    by (rule extractPackageFile_Some_deps [OF assms(1) res])
  note pth = extractDep_path [where repos = "?repos" and n = n, OF assms(3,4,5)]
  have "extractDep X ?repos ?urls ?lp t (n, v) \<in> set (deps res)"
    unfolding ds in_extractDeps using assms(2) by blast
  then have one: "\<lparr>depType = Some t, depName = Some n, currentValue = Some (trim v),
               datasource = None, packageName = None, extractVersion = None,
               skipReason = Some PathDependency, lockedVersion = None,
               registryUrls = None\<rparr> \<in> set (deps res)"
    by (simp add: pth)
  have "skipReason d = Some PathDependency \<and> datasource d = None
          \<and> packageName d = None \<and> registryUrls d = None"
    if "d \<in> set (deps res)" and "depName d = Some n" for d
  proof -
    from that(1) obtain t' n' v' where "d = extractDep X ?repos ?urls ?lp t' (n', v')"
      unfolding ds in_extractDeps by (metis surj_pair)
    moreover from this that(2) have "n' = n"
      by (simp add: extractDep_depName)
    ultimately show ?thesis
      by (simp add: pth)
  qed
  with res one show ?thesis
    by blast
qed

theorem path_repository_dependency_skipped_witness:
  "extractPackageFile (exampleExtractEnv pathLocalManifest None) ''<composer.json>''
     ''composer.json''
   = Some \<lparr>deps = [\<lparr>depType = Some Require, depName = Some ''acme/local'',
                     currentValue = Some ''^1.0'', datasource = None, packageName = None,
                     extractVersion = None, skipReason = Some PathDependency,
                     lockedVersion = None, registryUrls = None\<rparr>],
            lockFiles = None, managerData = None, extractedConstraints = None\<rparr>"
proof -
  let ?X = "exampleExtractEnv pathLocalManifest None"
  let ?r = "\<lparr>repoType = Some ''path'', repoUrl = Some ''../local'',
             repoName = Some ''acme/local'', repoPackagist = None, repoPackagistOrg = None,
             repoExtra = []\<rparr>"
  have p: "JSON_parse_ComposerConfig ?X ''<composer.json>'' = Some pathLocalManifest"
    by (simp add: exampleExtractEnv_def)
  have e: "(''acme/local'', ''^1.0'') \<in> set (declaredEntries pathLocalManifest Require)"
    by (simp add: declaredEntries_def declared_def pathLocalManifest_def orElse_def)
  have n: "''acme/local'' \<noteq> ''php''"
    by simp
  have m: "fst (manifestRepositories pathLocalManifest) ''acme/local'' = Some ?r"
    by (simp add: pathLocalManifest_def example_extract_defs)
  have ty: "repoType ?r = Some ''path''"
    by simp
  from path_repository_dependency_skipped [OF p e n m ty, of "''composer.json''"]
  obtain res where "extractPackageFile ?X ''<composer.json>'' ''composer.json'' = Some res"
    by blast
  then show ?thesis
    by (simp add: example_extract_defs pathLocalManifest_def)
qed

text \<open>
  Claim C7 as stated fails: the name \<open>php\<close> matches a named repository of type
  \<open>path\<close>, and the dependency emitted for it has a datasource and a package
  identifier and carries no skip reason.
\<close>

theorem path_repository_counterexample:
  "map_option repoType (fst (manifestRepositories pathPhpManifest) ''php'') = Some (Some ''path'')
   \<and> extractPackageFile (exampleExtractEnv pathPhpManifest None) ''<composer.json>''
       ''composer.json''
     = Some \<lparr>deps = [\<lparr>depType = Some Require, depName = Some ''php'',
                       currentValue = Some ''^8.0'', datasource = Some ''github-tags'',
                       packageName = Some ''php/php-src'',
                       extractVersion = Some ''^php-(?<version>.*)$'', skipReason = None,
                       lockedVersion = None, registryUrls = None\<rparr>],
              lockFiles = None, managerData = None, extractedConstraints = Some ''^8.0''\<rparr>"
  by (simp add: example_extract_defs pathPhpManifest_def)

subsection \<open>Locked versions\<close>

lemma lockOf_Some:
  "readLocalFile X (replaceSuffix fileName ''.json'' ''.lock'') = Some lockContents \<Longrightarrow>
   lockContents \<noteq> [] \<Longrightarrow> lockOf X fileName = JSON_parse_ComposerLock X lockContents"
  by (simp add: lockOf_def truthy_def)

text \<open>
  Claim C8, as the code has it. Let a dependency be declared in a group, with a name
  that is not the reserved name \<open>php\<close> and for which the lookup in the named
  repositories does not yield a declaration of type \<open>path\<close>. If the lock file has content and parses, and the first record of that name
  in the group's lock list (\<open>packages\<close> for \<open>require\<close>, \<open>packages-dev\<close> for
  \<open>require-dev\<close>) has a version that \<open>isVersion\<close> accepts, then extraction emits a
  dependency of that group and name, and every such dependency has as locked version
  that version string with one leading \<open>v\<close> or \<open>V\<close> removed.
\<close>

theorem locked_version_leading_v_stripped:
  assumes "JSON_parse_ComposerConfig X content = Some composerJson"
      and "(n, v) \<in> set (declaredEntries composerJson t)"
      and "n \<noteq> ''php''"
      and "\<not> (\<exists>r. fst (manifestRepositories composerJson) n = Some r
                \<and> repoType r = Some ''path'')"
      and "readLocalFile X (replaceSuffix fileName ''.json'' ''.lock'') = Some lockContents"
      and "lockContents \<noteq> []"
      and "JSON_parse_ComposerLock X lockContents = Some lock"
      and "(if t = Require then packages lock else packagesDev lock) = Some items"
      and "find (\<lambda>item. lockName item = n) items = Some lockedDep"
      and "isVersion X (lockVersion lockedDep)"
  shows "\<exists>res. extractPackageFile X content fileName = Some res
           \<and> (\<exists>d \<in> set (deps res). depType d = Some t \<and> depName d = Some n)
           \<and> (\<forall>d \<in> set (deps res). depType d = Some t \<and> depName d = Some n \<longrightarrow>
                 lockedVersion d = Some (stripLeadingV (lockVersion lockedDep)))"
proof -
  let ?repos = "fst (manifestRepositories composerJson)"
  let ?urls = "snd (manifestRepositories composerJson)"
  have lp: "lockOf X fileName = Some lock"
    using lockOf_Some [OF assms(5,6)] assms(7) by simp
  have fl: "findLocked lock t n = Some lockedDep"
    using assms(8,9) by (simp add: findLocked_def)
  note locked = extractDep_locked [where repos = "?repos" and n = n and l = lock and t = t,
      OF assms(3,4) fl assms(10)]
  from extractPackageFile_nonempty [OF assms(1,2)]
  obtain res where res: "extractPackageFile X content fileName = Some res"
    by blast
  have ds: "deps res = extractDeps X composerJson (Some lock)"
    using extractPackageFile_Some_deps [OF assms(1) res] lp by simp
  have "extractDep X ?repos ?urls (Some lock) t (n, v) \<in> set (deps res)"
    unfolding ds in_extractDeps using assms(2) by blast
  then have ex: "\<exists>d \<in> set (deps res). depType d = Some t \<and> depName d = Some n"
    using extractDep_depType extractDep_depName by blast
  have "lockedVersion d = Some (stripLeadingV (lockVersion lockedDep))"
    if "d \<in> set (deps res)" and "depType d = Some t" and "depName d = Some n" for d
  proof -
    from that(1) obtain t' n' v' where d: "d = extractDep X ?repos ?urls (Some lock) t' (n', v')"
      unfolding ds in_extractDeps by (metis surj_pair)
    from d that(2) have "t' = t"
      by (simp add: extractDep_depType)
    moreover from d that(3) have "n' = n"
      by (simp add: extractDep_depName)
    ultimately show ?thesis
      using d by (simp add: locked)
  qed
  with res ex show ?thesis
    by blast
qed

theorem locked_version_leading_v_stripped_witness:
  "extractPackageFile (exampleExtractEnv fooBarManifest (Some fooBarLock)) ''<composer.json>''
     ''composer.json''
   = Some \<lparr>deps = [\<lparr>depType = Some Require, depName = Some ''foo/bar'',
                     currentValue = Some ''^1.2'', datasource = Some ''packagist'',
                     packageName = None, extractVersion = None, skipReason = None,
                     lockedVersion = Some ''1.2.3'', registryUrls = None\<rparr>],
            lockFiles = Some [''composer.lock''], managerData = None,
            extractedConstraints = None\<rparr>"
proof -
  let ?X = "exampleExtractEnv fooBarManifest (Some fooBarLock)"
  let ?ld = "\<lparr>lockName = ''foo/bar'', lockVersion = ''v1.2.3''\<rparr>"
  have h1: "JSON_parse_ComposerConfig ?X ''<composer.json>'' = Some fooBarManifest"
    by (simp add: exampleExtractEnv_def)
  have h2: "(''foo/bar'', ''^1.2'') \<in> set (declaredEntries fooBarManifest Require)"
    by (simp add: declaredEntries_def declared_def fooBarManifest_def orElse_def)
  have h3: "''foo/bar'' \<noteq> ''php''"
    by simp
  have h4: "\<not> (\<exists>r. fst (manifestRepositories fooBarManifest) ''foo/bar'' = Some r
                 \<and> repoType r = Some ''path'')"
    by (simp add: manifestRepositories_def fooBarManifest_def lookupRepository_def
        objectPrototypeFunctions_def)
  have h5: "readLocalFile ?X (replaceSuffix ''composer.json'' ''.json'' ''.lock'')
              = Some ''<composer.lock>''"
    by (simp add: exampleExtractEnv_def replaceSuffix_def endsWith_def)
  have h6: "''<composer.lock>'' \<noteq> []"
    by simp
  have h7: "JSON_parse_ComposerLock ?X ''<composer.lock>'' = Some fooBarLock"
    by (simp add: exampleExtractEnv_def)
  have h8: "(if Require = Require then packages fooBarLock else packagesDev fooBarLock)
              = Some [?ld]"
    by (simp add: fooBarLock_def)
  have h9: "find (\<lambda>item. lockName item = ''foo/bar'') [?ld] = Some ?ld"
    by simp
  have h10: "isVersion ?X (lockVersion ?ld)"
    by (simp add: exampleExtractEnv_def exampleIsVersion_def stripLeadingV_def)
  from locked_version_leading_v_stripped [OF h1 h2 h3 h4 h5 h6 h7 h8 h9 h10]
  obtain res where "extractPackageFile ?X ''<composer.json>'' ''composer.json'' = Some res"
    and "\<forall>d \<in> set (deps res). depType d = Some Require \<and> depName d = Some ''foo/bar'' \<longrightarrow>
           lockedVersion d = Some (stripLeadingV ''v1.2.3'')"
    by auto
  then show ?thesis
    by (simp add: example_extract_defs fooBarManifest_def fooBarLock_def)
qed

text \<open>
  Claim C8 as stated fails: the declared dependency \<open>acme/local\<close> has a record of its
  name in the lock's \<open>packages\<close> with the valid version \<open>1.0.0\<close>, but it is bound to a
  named repository of type \<open>path\<close>, and the dependency emitted for it has no locked
  version.
\<close>

theorem locked_version_counterexample:
  "packages pathLocalLock = Some [\<lparr>lockName = ''acme/local'', lockVersion = ''1.0.0''\<rparr>]
   \<and> exampleIsVersion ''1.0.0''
   \<and> extractPackageFile (exampleExtractEnv pathLocalManifest (Some pathLocalLock))
       ''<composer.json>'' ''composer.json''
     = Some \<lparr>deps = [\<lparr>depType = Some Require, depName = Some ''acme/local'',
                       currentValue = Some ''^1.0'', datasource = None, packageName = None,
                       extractVersion = None, skipReason = Some PathDependency,
                       lockedVersion = None, registryUrls = None\<rparr>],
              lockFiles = Some [''composer.lock''], managerData = None,
              extractedConstraints = None\<rparr>"
  by (simp add: example_extract_defs pathLocalManifest_def pathLocalLock_def)

subsection \<open>The prototype of the object \<open>repositories\<close>\<close>

lemma lookupRepository_own: "own k = Some repo \<Longrightarrow> lookupRepository own proto k = Some repo"
  by (simp add: lookupRepository_def)

lemma lookupRepository_plain:
  "k \<noteq> ''__proto__'' \<Longrightarrow> k \<notin> set objectPrototypeFunctions \<Longrightarrow>
   lookupRepository own None k = own k"
  by (simp add: lookupRepository_def split: option.splits)

text \<open>
  A declaration keyed \<open>__proto__\<close> is not stored as an own property: it becomes the
  prototype, and the names of its other own properties are found by the lookup. Here
  \<open>foo/bar\<close> is found with type \<open>path\<close>, so the dependency is a path dependency and gets
  no locked version, although the lock has a record of its name.
\<close>

lemma inherited_repository_example:
  "fst (manifestRepositories inheritedRepoManifest) ''foo/bar'' = Some (readAs (Some ''path'') None)
   \<and> extractPackageFile (exampleExtractEnv inheritedRepoManifest (Some fooBarLock))
       ''<composer.json>'' ''composer.json''
     = Some \<lparr>deps = [\<lparr>depType = Some Require, depName = Some ''foo/bar'',
                       currentValue = Some ''^1.2'', datasource = None, packageName = None,
                       extractVersion = None, skipReason = Some PathDependency,
                       lockedVersion = None, registryUrls = None\<rparr>],
              lockFiles = Some [''composer.lock''], managerData = None,
              extractedConstraints = None\<rparr>"
  by (simp add: example_extract_defs inheritedRepoManifest_def fooBarLock_def)

section \<open>Properties of the credential payload\<close>

lemma setProperty_not_Nil: "k \<noteq> ''__proto__'' \<or> obj \<noteq> [] \<Longrightarrow> setProperty k v obj \<noteq> []"
  by (cases obj) (auto simp: setProperty_def)

lemma gitlabStep_frame:
  "githubOauth (gitlabStep r a) = githubOauth a \<and> httpBasic (gitlabStep r a) = httpBasic a
   \<and> bearer (gitlabStep r a) = bearer a"
  by (simp add: gitlabStep_def Let_def split: option.splits)

lemma gitlabStep_present:
  "(gitlabToken (gitlabStep r a) \<noteq> None \<longleftrightarrow> gitlabToken a \<noteq> None \<or> truthy (token r))
   \<and> (gitlabDomains (gitlabStep r a) \<noteq> None \<longleftrightarrow> gitlabDomains a \<noteq> None \<or> truthy (token r))"
  by (simp add: gitlabStep_def Let_def truthy_def split: option.splits)

lemma gitlabStep_domains_nonempty:
  "gitlabDomains a \<noteq> Some [] \<Longrightarrow> gitlabDomains (gitlabStep r a) \<noteq> Some []"
  by (simp add: gitlabStep_def Let_def split: option.splits)

lemma gitlabStep_token_nonempty:
  "gitlabToken a \<noteq> Some [] \<Longrightarrow> resolvedHost r \<noteq> Some ''__proto__'' \<Longrightarrow>
   gitlabToken (gitlabStep r a) \<noteq> Some []"
  by (cases "resolvedHost r")
     (auto simp: gitlabStep_def Let_def orElse_def setProperty_not_Nil split: option.splits)

lemma fold_gitlabStep_frame:
  "githubOauth (fold gitlabStep rs a) = githubOauth a
   \<and> httpBasic (fold gitlabStep rs a) = httpBasic a
   \<and> bearer (fold gitlabStep rs a) = bearer a"
  by (induction rs arbitrary: a) (simp_all add: gitlabStep_frame)

lemma fold_gitlabStep_present:
  "(gitlabToken (fold gitlabStep rs a) \<noteq> None
      \<longleftrightarrow> gitlabToken a \<noteq> None \<or> (\<exists>r \<in> set rs. truthy (token r)))
   \<and> (gitlabDomains (fold gitlabStep rs a) \<noteq> None
      \<longleftrightarrow> gitlabDomains a \<noteq> None \<or> (\<exists>r \<in> set rs. truthy (token r)))"
proof (induction rs arbitrary: a)
  case Nil
  show ?case by simp
next
  case (Cons r rs)
  show ?case
    using Cons.IH [of "gitlabStep r a"] gitlabStep_present [of r a] by auto
qed

lemma fold_gitlabStep_domains_nonempty:
  "gitlabDomains a \<noteq> Some [] \<Longrightarrow> gitlabDomains (fold gitlabStep rs a) \<noteq> Some []"
  by (induction rs arbitrary: a) (simp_all add: gitlabStep_domains_nonempty)

lemma fold_gitlabStep_token_nonempty:
  "gitlabToken a \<noteq> Some [] \<Longrightarrow> \<forall>r \<in> set rs. resolvedHost r \<noteq> Some ''__proto__'' \<Longrightarrow>
   gitlabToken (fold gitlabStep rs a) \<noteq> Some []"
  by (induction rs arbitrary: a) (simp_all add: gitlabStep_token_nonempty)

lemma packagistStep_frame:
  "githubOauth (packagistStep r a) = githubOauth a
   \<and> gitlabToken (packagistStep r a) = gitlabToken a
   \<and> gitlabDomains (packagistStep r a) = gitlabDomains a"
  by (simp add: packagistStep_def)

lemma packagistStep_present:
  "(httpBasic (packagistStep r a) \<noteq> None \<longleftrightarrow> httpBasic a \<noteq> None \<or> basicRule r)
   \<and> (bearer (packagistStep r a) \<noteq> None \<longleftrightarrow> bearer a \<noteq> None \<or> bearerRule r)"
  by (auto simp add: packagistStep_def bearerRule_def)

lemma packagistStep_nonempty:
  "httpBasic a \<noteq> Some [] \<Longrightarrow> bearer a \<noteq> Some [] \<Longrightarrow> resolvedHost r \<noteq> Some ''__proto__'' \<Longrightarrow>
   httpBasic (packagistStep r a) \<noteq> Some [] \<and> bearer (packagistStep r a) \<noteq> Some []"
  by (cases "resolvedHost r")
     (auto simp: packagistStep_def basicRule_def bearerRule_def truthy_def orElse_def
        setProperty_not_Nil)

lemma fold_packagistStep_frame:
  "githubOauth (fold packagistStep rs a) = githubOauth a
   \<and> gitlabToken (fold packagistStep rs a) = gitlabToken a
   \<and> gitlabDomains (fold packagistStep rs a) = gitlabDomains a"
  by (induction rs arbitrary: a) (simp_all add: packagistStep_frame)

lemma fold_packagistStep_present:
  "(httpBasic (fold packagistStep rs a) \<noteq> None
      \<longleftrightarrow> httpBasic a \<noteq> None \<or> (\<exists>r \<in> set rs. basicRule r))
   \<and> (bearer (fold packagistStep rs a) \<noteq> None
      \<longleftrightarrow> bearer a \<noteq> None \<or> (\<exists>r \<in> set rs. bearerRule r))"
proof (induction rs arbitrary: a)
  case Nil
  show ?case by simp
next
  case (Cons r rs)
  show ?case
    using Cons.IH [of "packagistStep r a"] packagistStep_present [of r a] by auto
qed

lemma fold_packagistStep_nonempty:
  "httpBasic a \<noteq> Some [] \<Longrightarrow> bearer a \<noteq> Some [] \<Longrightarrow>
   \<forall>r \<in> set rs. resolvedHost r \<noteq> Some ''__proto__'' \<Longrightarrow>
   httpBasic (fold packagistStep rs a) \<noteq> Some []
   \<and> bearer (fold packagistStep rs a) \<noteq> Some []"
proof (induction rs arbitrary: a)
  case Nil
  then show ?case by simp
next
  case (Cons r rs)
  from Cons.prems have "resolvedHost r \<noteq> Some ''__proto__''"
    and rest: "\<forall>r \<in> set rs. resolvedHost r \<noteq> Some ''__proto__''"
    by simp_all
  from packagistStep_nonempty [OF Cons.prems(1,2) this(1)] show ?case
    using Cons.IH [of "packagistStep r a"] rest by simp
qed

lemma githubStep_branches:
  "(githubOauth (githubStep A emptyAuthJson) \<noteq> None \<longleftrightarrow> truthy (selectedGithubToken A))
   \<and> githubOauth (githubStep A emptyAuthJson) \<noteq> Some []
   \<and> gitlabToken (githubStep A emptyAuthJson) = None
   \<and> gitlabDomains (githubStep A emptyAuthJson) = None
   \<and> httpBasic (githubStep A emptyAuthJson) = None
   \<and> bearer (githubStep A emptyAuthJson) = None"
  by (simp add: githubStep_def emptyAuthJson_def truthy_def split: option.splits)

lemma collected_branches:
  "(githubOauth (collectedAuthJson A) \<noteq> None \<longleftrightarrow> truthy (selectedGithubToken A))
   \<and> (gitlabToken (collectedAuthJson A) \<noteq> None
        \<longleftrightarrow> (\<exists>r \<in> set (gitlabRules A). truthy (token r)))
   \<and> (gitlabDomains (collectedAuthJson A) \<noteq> None
        \<longleftrightarrow> (\<exists>r \<in> set (gitlabRules A). truthy (token r)))
   \<and> (httpBasic (collectedAuthJson A) \<noteq> None
        \<longleftrightarrow> (\<exists>r \<in> set (registryRules A). basicRule r))
   \<and> (bearer (collectedAuthJson A) \<noteq> None
        \<longleftrightarrow> (\<exists>r \<in> set (registryRules A). bearerRule r))"
proof -
  let ?g = "githubStep A emptyAuthJson"
  let ?l = "fold gitlabStep (gitlabRules A) ?g"
  note g = githubStep_branches [of A]
  note l = fold_gitlabStep_frame [of "gitlabRules A" ?g]
    fold_gitlabStep_present [of "gitlabRules A" ?g]
  note p = fold_packagistStep_frame [of "registryRules A" ?l]
    fold_packagistStep_present [of "registryRules A" ?l]
  have c: "collectedAuthJson A = fold packagistStep (registryRules A) ?l"
    by (simp add: collectedAuthJson_def)
  from g l p show ?thesis
    unfolding c by auto
qed

text \<open>
  \<open>getAuthJson\<close> returns \<open>null\<close> exactly when nothing was collected: the selected GitHub
  token is not truthy, no GitLab rule has a truthy token, and no rule of the package
  registry has a resolved host together with a user name and a password or with a
  token. Otherwise it returns \<open>JSON.stringify\<close> of the collected object, which is not
  the empty object; a branch of that object is present exactly when a rule wrote to
  it.
\<close>

lemma auth_payload_absent_iff_nothing_collected:
  "(getAuthJson A = None \<longleftrightarrow>
      \<not> truthy (selectedGithubToken A)
      \<and> (\<forall>r \<in> set (gitlabRules A). \<not> truthy (token r))
      \<and> (\<forall>r \<in> set (registryRules A). \<not> basicRule r \<and> \<not> bearerRule r))
   \<and> (\<forall>s. getAuthJson A = Some s \<longrightarrow>
         s = JSON_stringify A (collectedAuthJson A) \<and> collectedAuthJson A \<noteq> emptyAuthJson)
   \<and> (githubOauth (collectedAuthJson A) \<noteq> None \<longleftrightarrow> truthy (selectedGithubToken A))
   \<and> (gitlabToken (collectedAuthJson A) \<noteq> None
        \<longleftrightarrow> (\<exists>r \<in> set (gitlabRules A). truthy (token r)))
   \<and> (gitlabDomains (collectedAuthJson A) \<noteq> None
        \<longleftrightarrow> (\<exists>r \<in> set (gitlabRules A). truthy (token r)))
   \<and> (httpBasic (collectedAuthJson A) \<noteq> None
        \<longleftrightarrow> (\<exists>r \<in> set (registryRules A). basicRule r))
   \<and> (bearer (collectedAuthJson A) \<noteq> None
        \<longleftrightarrow> (\<exists>r \<in> set (registryRules A). bearerRule r))"
proof -
  have none: "getAuthJson A = None \<longleftrightarrow> isEmptyObject (collectedAuthJson A)"
    by (simp add: getAuthJson_def)
  have empty: "isEmptyObject (collectedAuthJson A) \<longleftrightarrow>
      \<not> truthy (selectedGithubToken A)
      \<and> (\<forall>r \<in> set (gitlabRules A). \<not> truthy (token r))
      \<and> (\<forall>r \<in> set (registryRules A). \<not> basicRule r \<and> \<not> bearerRule r)"
    unfolding isEmptyObject_def using collected_branches [of A] by blast
  have some: "s = JSON_stringify A (collectedAuthJson A) \<and> collectedAuthJson A \<noteq> emptyAuthJson"
    if "getAuthJson A = Some s" for s
  proof -
    from that have "\<not> isEmptyObject (collectedAuthJson A)"
      and "s = JSON_stringify A (collectedAuthJson A)"
      by (auto simp: getAuthJson_def split: if_splits)
    moreover have "isEmptyObject emptyAuthJson"
      by (simp add: isEmptyObject_def emptyAuthJson_def)
    ultimately show ?thesis
      by auto
  qed
  from none empty some collected_branches [of A]
  show ?thesis
    by blast
qed

text \<open>
  When no rule has the resolved host \<open>__proto__\<close>, no present branch of the collected
  object is empty.
\<close>

lemma collected_nonempty:
  assumes "\<forall>r \<in> set (gitlabRules A). resolvedHost r \<noteq> Some ''__proto__''"
      and "\<forall>r \<in> set (registryRules A). resolvedHost r \<noteq> Some ''__proto__''"
  shows "githubOauth (collectedAuthJson A) \<noteq> Some []
         \<and> gitlabToken (collectedAuthJson A) \<noteq> Some []
         \<and> gitlabDomains (collectedAuthJson A) \<noteq> Some []
         \<and> httpBasic (collectedAuthJson A) \<noteq> Some []
         \<and> bearer (collectedAuthJson A) \<noteq> Some []"
proof -
  let ?g = "githubStep A emptyAuthJson"
  let ?l = "fold gitlabStep (gitlabRules A) ?g"
  have g: "gitlabToken ?g \<noteq> Some []" "gitlabDomains ?g \<noteq> Some []"
    using githubStep_branches [of A] by simp_all
  have l: "httpBasic ?l \<noteq> Some []" "bearer ?l \<noteq> Some []"
    using githubStep_branches [of A] by (simp_all add: fold_gitlabStep_frame)
  have c: "collectedAuthJson A = fold packagistStep (registryRules A) ?l"
    by (simp add: collectedAuthJson_def)
  show ?thesis
    unfolding c
    using fold_gitlabStep_token_nonempty [OF g(1) assms(1)]
      fold_gitlabStep_domains_nonempty [OF g(2), of "gitlabRules A"]
      fold_packagistStep_nonempty [OF l assms(2)] githubStep_branches [of A]
    by (simp add: fold_packagistStep_frame fold_gitlabStep_frame)
qed

lemma auth_payload_examples:
  "getAuthJson (exampleAuthEnv None [] [hostlessRule]) = None
   \<and> getAuthJson (exampleAuthEnv None [gitlabTokenRule] []) = Some ''{...}''
   \<and> collectedAuthJson (exampleAuthEnv None [gitlabTokenRule] [])
     = \<lparr>githubOauth = None, gitlabToken = Some [(''gitlab.com'', ''glpat-abc'')],
        gitlabDomains = Some [''gitlab.com''], httpBasic = None, bearer = None\<rparr>"
  by (simp add: getAuthJson_def collectedAuthJson_def exampleAuthEnv_def gitlabTokenRule_def
      hostlessRule_def githubStep_def selectedGithubToken_def gitlabStep_def packagistStep_def
      basicRule_def bearerRule_def truthy_def orElse_def emptyAuthJson_def isEmptyObject_def
      setProperty_def gitlabRules_def registryRules_def Let_def)

text \<open>
  Claim C9 at a concrete input. The only credential rule is a GitLab rule with a
  token and the resolved host \<open>__proto__\<close>. Line 61 creates the branch
  \<open>gitlab-token\<close>, and the assignment of line 62 under the key \<open>__proto__\<close> adds no own
  property to it: the payload is present and holds the branch \<open>gitlab-token\<close> with
  nothing in it, beside \<open>gitlab-domains\<close>.
\<close>

theorem proto_host_leaves_empty_branch:
  "collectedAuthJson (exampleAuthEnv None [protoHostRule] [])
     = \<lparr>githubOauth = None, gitlabToken = Some [], gitlabDomains = Some [''__proto__''],
        httpBasic = None, bearer = None\<rparr>
   \<and> getAuthJson (exampleAuthEnv None [protoHostRule] []) = Some ''{...}''"
  by (simp add: getAuthJson_def collectedAuthJson_def exampleAuthEnv_def protoHostRule_def
      githubStep_def selectedGithubToken_def gitlabStep_def orElse_def emptyAuthJson_def
      isEmptyObject_def setProperty_def gitlabRules_def registryRules_def Let_def)

section \<open>Properties of synthesis\<close>

lemmas io_defs =
  io_return_def io_throw_def io_lift_def io_call_def io_bind_def io_catch_def raised_def

lemmas example_artifacts_defs =
  updateArtifacts_def tryBlock_def catchBlock_def reconcile_def plannedCommands_def
  updateArgs_def messageIncludes_def exampleArtifactsEnv_def exampleConfig_def
  exampleAuthEnv_def updatedDep_def getAuthJson_def collectedAuthJson_def githubStep_def
  selectedGithubToken_def gitlabRules_def registryRules_def emptyAuthJson_def
  isEmptyObject_def replaceSuffix_def endsWith_def startsWith_def trim_def isWhiteSpace_def
  List.map_filter_def Let_def

lemma vendorAdditions_eq:
  "vendorAdditions E v fs =
     (map ReadLocalFile (filter (\<lambda>f. startsWith f v) fs),
      Inr (map (\<lambda>f. Addition f (readLocalFileAfter E f)) (filter (\<lambda>f. startsWith f v) fs)))"
  by (induction fs) (simp_all add: io_return_def io_bind_def io_call_def)

subsection \<open>No lock file\<close>

text \<open>
  Claim C10. When reading the sibling lock path gives \<open>null\<close> or the empty string,
  \<open>updateArtifacts\<close> returns \<open>null\<close>, and that read is the only call it has made: the
  manifest is not written, no directory is created, no command is planned or run.
\<close>

theorem missing_lock_returns_null_at_once:
  assumes "\<not> truthy (readLocalFileBefore E (replaceSuffix packageFileName ''.json'' ''.lock''))"
  shows "updateArtifacts A E packageFileName updatedDeps newPackageFileContent config
           = ([ReadLocalFile (replaceSuffix packageFileName ''.json'' ''.lock'')], Inr None)"
  using assms
  by (simp add: updateArtifacts_def truthy_def io_defs Let_def split: option.splits)

theorem missing_lock_returns_null_at_once_witness:
  "updateArtifacts (exampleAuthEnv None [] [])
     (exampleArtifactsEnv None True None lockModifiedStatus)
     ''composer.json'' [updatedDep ''acme/widget''] ''<composer.json>'' (exampleConfig False)
   = ([ReadLocalFile ''composer.lock''], Inr None)
   \<and> updateArtifacts (exampleAuthEnv None [] [])
     (exampleArtifactsEnv (Some '''') True None lockModifiedStatus)
     ''composer.json'' [updatedDep ''acme/widget''] ''<composer.json>'' (exampleConfig False)
   = ([ReadLocalFile ''composer.lock''], Inr None)"
proof -
  let ?E = "exampleArtifactsEnv None True None lockModifiedStatus"
  let ?F = "exampleArtifactsEnv (Some '''') True None lockModifiedStatus"
  have l: "replaceSuffix ''composer.json'' ''.json'' ''.lock'' = ''composer.lock''"
    by (simp add: replaceSuffix_def endsWith_def)
  have e: "\<not> truthy (readLocalFileBefore ?E (replaceSuffix ''composer.json'' ''.json'' ''.lock''))"
    by (simp add: l exampleArtifactsEnv_def truthy_def)
  have f: "\<not> truthy (readLocalFileBefore ?F (replaceSuffix ''composer.json'' ''.json'' ''.lock''))"
    by (simp add: l exampleArtifactsEnv_def truthy_def)
  from missing_lock_returns_null_at_once [OF e] missing_lock_returns_null_at_once [OF f]
  show ?thesis
    by (simp add: l)
qed

subsection \<open>The planned commands\<close>

text \<open>What has happened when \<open>exec\<close> is called: the lock file had content, the vendor
  directory was ensured, the manifest was written, both parses succeeded and the
  cache directory was ensured; the commands and options are the planned ones.\<close>

lemma exec_reached:
  assumes "Exec cmds opts \<in> set (fst (updateArtifacts A E pf ud content config))"
  shows "\<exists>lockText lockData manifestData cacheDir.
           readLocalFileBefore E (replaceSuffix pf ''.json'' ''.lock'') = Some lockText
           \<and> lockText \<noteq> []
           \<and> ensureLocalDir E (getSiblingFileName E pf ''vendor'') = None
           \<and> writeLocalFile E pf content = None
           \<and> ComposerLock_safeParse E lockText = Inr (Some lockData)
           \<and> ComposerConfig_safeParse E content = Inr (Some manifestData)
           \<and> ensureCacheDir E ''composer'' = Inr cacheDir
           \<and> cmds = plannedCommands E config
                      \<lparr>toolName = ''composer'',
                       constraint = (extractConstraints E manifestData lockData
                                      ++ constraints config) ''composer''\<rparr>
                      lockData ud
           \<and> opts = \<lparr>cwdFile = pf, COMPOSER_CACHE_DIR = cacheDir,
                      COMPOSER_AUTH = getAuthJson A,
                      toolConstraints =
                        [\<lparr>toolName = ''php'',
                          constraint = getPhpConstraint E
                            (extractConstraints E manifestData lockData ++ constraints config)\<rparr>,
                         \<lparr>toolName = ''composer'',
                          constraint = (extractConstraints E manifestData lockData
                                         ++ constraints config) ''composer''\<rparr>]\<rparr>"
  using assms
  by (auto simp: updateArtifacts_def tryBlock_def catchBlock_def reconcile_def io_defs Let_def
      vendorAdditions_eq split: option.splits sum.splits if_splits prod.splits)








subsection \<open>After the commands have run\<close>

text \<open>What has happened when the status is queried: \<open>exec\<close> was called and raised
  nothing.\<close>

lemma status_reached:
  assumes "GetRepoStatus \<in> set (fst (updateArtifacts A E pf ud content config))"
  shows "\<exists>cmds opts. Exec cmds opts \<in> set (fst (updateArtifacts A E pf ud content config))
           \<and> exec E cmds opts = None"
  using assms
  by (auto simp: updateArtifacts_def tryBlock_def catchBlock_def reconcile_def io_defs Let_def
      vendorAdditions_eq split: option.splits sum.splits if_splits prod.splits)

text \<open>
  Claim C2. When the run reaches the status query and the status it gets does not
  list the lock file path among the modified paths, \<open>updateArtifacts\<close> returns \<open>null\<close>:
  no result list, and no rejection.
\<close>

theorem unmodified_lock_returns_null:
  assumes "GetRepoStatus \<in> set (fst (updateArtifacts A E packageFileName updatedDeps
                                        newPackageFileContent config))"
      and "getRepoStatus E = Inr status"
      and "replaceSuffix packageFileName ''.json'' ''.lock'' \<notin> set (modified status)"
  shows "snd (updateArtifacts A E packageFileName updatedDeps newPackageFileContent config)
           = Inr None"
  using assms
  by (auto simp: updateArtifacts_def tryBlock_def catchBlock_def reconcile_def io_defs Let_def
      vendorAdditions_eq split: option.splits sum.splits if_splits prod.splits)

theorem unmodified_lock_returns_null_witness:
  "GetRepoStatus
     \<in> set (fst (updateArtifacts (exampleAuthEnv None [] [])
                   (exampleArtifactsEnv (Some ''<composer.lock>'') True None unchangedStatus)
                   ''composer.json'' [updatedDep ''acme/widget''] ''<composer.json>''
                   (exampleConfig False)))
   \<and> ''composer.lock'' \<notin> set (modified unchangedStatus)
   \<and> snd (updateArtifacts (exampleAuthEnv None [] [])
            (exampleArtifactsEnv (Some ''<composer.lock>'') True None unchangedStatus)
            ''composer.json'' [updatedDep ''acme/widget''] ''<composer.json>''
            (exampleConfig False))
     = Inr None"
proof -
  let ?E = "exampleArtifactsEnv (Some ''<composer.lock>'') True None unchangedStatus"
  have l: "replaceSuffix ''composer.json'' ''.json'' ''.lock'' = ''composer.lock''"
    by (simp add: replaceSuffix_def endsWith_def)
  have r: "GetRepoStatus
     \<in> set (fst (updateArtifacts (exampleAuthEnv None [] []) ?E
                   ''composer.json'' [updatedDep ''acme/widget''] ''<composer.json>''
                   (exampleConfig False)))"
    by (simp add: example_artifacts_defs unchangedStatus_def io_defs)
  have s: "getRepoStatus ?E = Inr unchangedStatus"
    by (simp add: exampleArtifactsEnv_def)
  have m: "replaceSuffix ''composer.json'' ''.json'' ''.lock'' \<notin> set (modified unchangedStatus)"
    by (simp add: l unchangedStatus_def)
  from unmodified_lock_returns_null [OF r s m] r m show ?thesis
    by (simp add: l)
qed

text \<open>
  The result when the lock file was modified and the vendor directory existed before
  the run: the lock file, then the modified and newly added paths that start with
  the vendor directory, then every deleted path.
\<close>

lemma vendor_result:
  assumes "GetRepoStatus \<in> set (fst (updateArtifacts A E pf ud content config))"
      and "getRepoStatus E = Inr status"
      and "replaceSuffix pf ''.json'' ''.lock'' \<in> set (modified status)"
      and "localPathExists E (getSiblingFileName E pf ''vendor'')"
  shows "snd (updateArtifacts A E pf ud content config)
           = Inr (Some (Addition (replaceSuffix pf ''.json'' ''.lock'')
                          (readLocalFileAfter E (replaceSuffix pf ''.json'' ''.lock''))
                        # map (\<lambda>f. Addition f (readLocalFileAfter E f))
                            (filter (\<lambda>f. startsWith f (getSiblingFileName E pf ''vendor''))
                               (modified status @ not_added status))
                        @ map Deletion (deleted status)))"
  using assms
  by (auto simp: updateArtifacts_def tryBlock_def catchBlock_def reconcile_def io_defs Let_def
      vendorAdditions_eq split: option.splits sum.splits if_splits prod.splits)

text \<open>
  Claim C1 at a concrete run. The vendor directory \<open>vendor\<close> existed, and the status
  lists the lock file as modified, a new file and a deleted file under \<open>vendor\<close>, and
  the deleted file \<open>docs/guide.md\<close> outside it. The result holds the lock file
  addition, the addition of the new vendor file and the deletion of the vendor file,
  and also the deletion of \<open>docs/guide.md\<close>, whose path does not start with the vendor
  directory: the loop over the deleted paths (lines 221-228) has no prefix test,
  unlike the loop over the modified and newly added paths (line 211).
\<close>

theorem deleted_path_outside_vendor_is_returned:
  "\<not> startsWith ''docs/guide.md'' ''vendor''
   \<and> snd (updateArtifacts (exampleAuthEnv None [] [])
            (exampleArtifactsEnv (Some ''<composer.lock>'') True None vendorStatus)
            ''composer.json'' [updatedDep ''acme/widget''] ''<composer.json>''
            (exampleConfig False))
     = Inr (Some [Addition ''composer.lock'' (Some ''new:composer.lock''),
                  Addition ''vendor/acme/widget/New.php''
                    (Some ''new:vendor/acme/widget/New.php''),
                  Deletion ''vendor/acme/widget/Old.php'',
                  Deletion ''docs/guide.md''])"
  by (simp add: example_artifacts_defs vendorStatus_def io_defs vendorAdditions_eq)

subsection \<open>Failures of the commands\<close>

text \<open>
  Claim C3, as the code has it. \<open>TEMPORARY_ERROR\<close> is a constant from outside the
  source files; it is taken to contain neither of the two texts tested below. Let
  \<open>exec\<close> raise an error. If its message contains the resolver's "no installable set"
  text, \<open>updateArtifacts\<close> returns the single artifact error with the lock file path
  and the raw message, also when the message contains the disk-full indication as
  well. If the message contains the disk-full indication and not that text,
  \<open>updateArtifacts\<close> rejects with the fixed error whose message is
  \<open>SYSTEM_INSUFFICIENT_DISK_SPACE\<close>.
\<close>

theorem exec_failure_classified:
  assumes "Exec cmds opts \<in> set (fst (updateArtifacts A E packageFileName updatedDeps
                                         newPackageFileContent config))"
      and "exec E cmds opts = Some e"
      and "\<not> strIncludes (TEMPORARY_ERROR E)
               ''Your requirements could not be resolved to an installable set of packages.''"
      and "\<not> strIncludes (TEMPORARY_ERROR E) ''write error (disk full?)''"
  shows "(messageIncludes e
            ''Your requirements could not be resolved to an installable set of packages.''
          \<longrightarrow> snd (updateArtifacts A E packageFileName updatedDeps newPackageFileContent config)
              = Inr (Some [ArtifactError (replaceSuffix packageFileName ''.json'' ''.lock'')
                             (message e)]))
         \<and> (messageIncludes e ''write error (disk full?)''
            \<and> \<not> messageIncludes e
                  ''Your requirements could not be resolved to an installable set of packages.''
          \<longrightarrow> snd (updateArtifacts A E packageFileName updatedDeps newPackageFileContent config)
              = Inl (Error (Some (SYSTEM_INSUFFICIENT_DISK_SPACE E))))"
proof -
  from exec_reached [OF assms(1)] obtain lockText lockData manifestData cacheDir where
    r: "readLocalFileBefore E (replaceSuffix packageFileName ''.json'' ''.lock'') = Some lockText"
      "lockText \<noteq> []"
      "ensureLocalDir E (getSiblingFileName E packageFileName ''vendor'') = None"
      "writeLocalFile E packageFileName newPackageFileContent = None"
      "ComposerLock_safeParse E lockText = Inr (Some lockData)"
      "ComposerConfig_safeParse E newPackageFileContent = Inr (Some manifestData)"
      "ensureCacheDir E ''composer'' = Inr cacheDir"
    and c: "cmds = plannedCommands E config
                      \<lparr>toolName = ''composer'',
                       constraint = (extractConstraints E manifestData lockData
                                      ++ constraints config) ''composer''\<rparr>
                      lockData updatedDeps"
    and ob: "opts = \<lparr>cwdFile = packageFileName, COMPOSER_CACHE_DIR = cacheDir,
                      COMPOSER_AUTH = getAuthJson A,
                      toolConstraints =
                        [\<lparr>toolName = ''php'',
                          constraint = getPhpConstraint E
                            (extractConstraints E manifestData lockData ++ constraints config)\<rparr>,
                         \<lparr>toolName = ''composer'',
                          constraint = (extractConstraints E manifestData lockData
                                         ++ constraints config) ''composer''\<rparr>]\<rparr>"
    by blast
  have caught: "snd (updateArtifacts A E packageFileName updatedDeps newPackageFileContent config)
          = snd (catchBlock E (replaceSuffix packageFileName ''.json'' ''.lock'') e)"
    using r assms(2) unfolding c ob
    by (simp add: updateArtifacts_def tryBlock_def io_defs Let_def split: prod.splits)
  show ?thesis
  proof (cases "message e = Some (TEMPORARY_ERROR E)")
    case True
    then have "\<not> messageIncludes e
                   ''Your requirements could not be resolved to an installable set of packages.''"
      and "\<not> messageIncludes e ''write error (disk full?)''"
      using assms(3,4) by (simp_all add: messageIncludes_def)
    then show ?thesis
      by simp
  next
    case False
    with caught show ?thesis
      by (simp add: catchBlock_def io_defs)
  qed
qed

theorem exec_failure_classified_witness:
  "snd (updateArtifacts (exampleAuthEnv None [] [])
          (exampleArtifactsEnv (Some ''<composer.lock>'') False
             (Some (Error (Some diskFullMessage))) unchangedStatus)
          ''composer.json'' [updatedDep ''acme/widget''] ''<composer.json>''
          (exampleConfig False))
     = Inl (Error (Some ''disk-space''))
   \<and> snd (updateArtifacts (exampleAuthEnv None [] [])
          (exampleArtifactsEnv (Some ''<composer.lock>'') False
             (Some (Error (Some unresolvableMessage))) unchangedStatus)
          ''composer.json'' [updatedDep ''acme/widget''] ''<composer.json>''
          (exampleConfig False))
     = Inr (Some [ArtifactError ''composer.lock'' (Some unresolvableMessage)])"
proof -
  let ?A = "exampleAuthEnv None [] []"
  let ?D = "exampleArtifactsEnv (Some ''<composer.lock>'') False
              (Some (Error (Some diskFullMessage))) unchangedStatus"
  let ?U = "exampleArtifactsEnv (Some ''<composer.lock>'') False
              (Some (Error (Some unresolvableMessage))) unchangedStatus"
  let ?c = "[''composer update acme/widget --with-dependencies --no-ansi --no-interaction'']"
  let ?run = "\<lambda>E. updateArtifacts ?A E ''composer.json'' [updatedDep ''acme/widget'']
                     ''<composer.json>'' (exampleConfig False)"
  have l: "replaceSuffix ''composer.json'' ''.json'' ''.lock'' = ''composer.lock''"
    by (simp add: replaceSuffix_def endsWith_def)
  have d1: "Exec ?c exampleExecOptions \<in> set (fst (?run ?D))"
    by (simp add: example_artifacts_defs exampleExecOptions_def io_defs)
  have d2: "exec ?D ?c exampleExecOptions = Some (Error (Some diskFullMessage))"
    by (simp add: exampleArtifactsEnv_def)
  have d3: "\<not> strIncludes (TEMPORARY_ERROR ?D)
                ''Your requirements could not be resolved to an installable set of packages.''"
    and d3': "\<not> strIncludes (TEMPORARY_ERROR ?D) ''write error (disk full?)''"
    by (simp_all add: exampleArtifactsEnv_def startsWith_def)
  have d4: "messageIncludes (Error (Some diskFullMessage)) ''write error (disk full?)''"
    by (simp add: messageIncludes_def diskFullMessage_def startsWith_def)
  have d5: "\<not> messageIncludes (Error (Some diskFullMessage))
                ''Your requirements could not be resolved to an installable set of packages.''"
    by (simp add: messageIncludes_def diskFullMessage_def startsWith_def)
  have u1: "Exec ?c exampleExecOptions \<in> set (fst (?run ?U))"
    by (simp add: example_artifacts_defs exampleExecOptions_def io_defs)
  have u2: "exec ?U ?c exampleExecOptions = Some (Error (Some unresolvableMessage))"
    by (simp add: exampleArtifactsEnv_def)
  have u3: "\<not> strIncludes (TEMPORARY_ERROR ?U)
                ''Your requirements could not be resolved to an installable set of packages.''"
    and u3': "\<not> strIncludes (TEMPORARY_ERROR ?U) ''write error (disk full?)''"
    by (simp_all add: exampleArtifactsEnv_def startsWith_def)
  have u4: "messageIncludes (Error (Some unresolvableMessage))
              ''Your requirements could not be resolved to an installable set of packages.''"
    by (simp add: messageIncludes_def unresolvableMessage_def startsWith_def)
  from exec_failure_classified [OF d1 d2 d3 d3'] d4 d5
  have "snd (?run ?D) = Inl (Error (Some (SYSTEM_INSUFFICIENT_DISK_SPACE ?D)))"
    by blast
  moreover from exec_failure_classified [OF u1 u2 u3 u3'] u4
  have "snd (?run ?U) = Inr (Some [ArtifactError (replaceSuffix ''composer.json'' ''.json'' ''.lock'')
                                    (message (Error (Some unresolvableMessage)))])"
    by blast
  ultimately show ?thesis
    by (simp add: l exampleArtifactsEnv_def)
qed

text \<open>
  Claim C3 as stated fails: \<open>exec\<close> raises an error whose message contains the
  disk-full indication (after the "no installable set" text), and \<open>updateArtifacts\<close>
  returns an artifact error instead of rejecting.
\<close>

theorem disk_full_counterexample:
  "strIncludes bothMessage ''write error (disk full?)''
   \<and> updateArtifacts (exampleAuthEnv None [] [])
       (exampleArtifactsEnv (Some ''<composer.lock>'') False
          (Some (Error (Some bothMessage))) unchangedStatus)
       ''composer.json'' [updatedDep ''acme/widget''] ''<composer.json>'' (exampleConfig False)
     = ([ReadLocalFile ''composer.lock'', LocalPathExists ''vendor'', EnsureLocalDir ''vendor'',
         WriteLocalFile ''composer.json'' ''<composer.json>'', EnsureCacheDir ''composer'',
         Exec [''composer update acme/widget --with-dependencies --no-ansi --no-interaction'']
           exampleExecOptions],
        Inr (Some [ArtifactError ''composer.lock'' (Some bothMessage)]))"
  by (simp add: example_artifacts_defs exampleExecOptions_def bothMessage_def io_defs)

end
